theory Spec2Isabelle
  imports Complex_Main "HOL-Library.AList" "HOL-Library.Multiset"
begin

section \<open>JavaScript values\<close>

text \<open>
  The backend (\<^verbatim>\<open>src/backend/server.js\<close>) works on the values that
  \<^verbatim>\<open>express.json()\<close> hands to it and on the objects it builds from them.
  A finite double is represented by the rational it denotes; the three non-finite
  doubles are separate constructors.  An object is the list of its own properties in
  insertion order.
\<close>

datatype jsnum = Fin rat | PosInf | NegInf | NaN

datatype jsval =
    JUndefined
  | JNull
  | JBool bool
  | JNum jsnum
  | JStr string
  | JArr "jsval list"
  | JObj "(string \<times> jsval) list"

text \<open>\<^verbatim>\<open>Number.isFinite\<close> on a value that is already a number.\<close>

fun isFinite :: "jsnum \<Rightarrow> bool" where
  "isFinite (Fin r) = True"
| "isFinite PosInf = False"
| "isFinite NegInf = False"
| "isFinite NaN = False"

text \<open>\<^verbatim>\<open>typeof v === "string"\<close>.\<close>

fun typeof_string :: "jsval \<Rightarrow> bool" where
  "typeof_string (JStr s) = True"
| "typeof_string v = False"

text \<open>
  Property read \<^verbatim>\<open>v?.k\<close> for the keys the server reads (\<^verbatim>\<open>event\<close>,
  \<^verbatim>\<open>pitch\<close>, \<^verbatim>\<open>ts\<close>, \<^verbatim>\<open>kind\<close>, ...): an own property of an
  object, and \<^verbatim>\<open>undefined\<close> on everything else (none of these keys is inherited
  from a prototype, and \<^verbatim>\<open>?.\<close> turns a read on \<^verbatim>\<open>undefined\<close> or
  \<^verbatim>\<open>null\<close> into \<^verbatim>\<open>undefined\<close>).
\<close>

fun getProp :: "jsval \<Rightarrow> string \<Rightarrow> jsval" where
  "getProp (JObj kvs) k = (case map_of kvs k of Some v \<Rightarrow> v | None \<Rightarrow> JUndefined)"
| "getProp v k = JUndefined"

text \<open>
  The own properties copied by an object spread \<^verbatim>\<open>{ ...v }\<close>.  The server
  spreads objects only: \<^verbatim>\<open>norm.msg\<close>, and a body whose \<^verbatim>\<open>event\<close> is a
  string.
\<close>

fun spread :: "jsval \<Rightarrow> (string \<times> jsval) list" where
  "spread (JObj kvs) = kvs"
| "spread v = []"

text \<open>\<^verbatim>\<open>a ?? b\<close>.\<close>

fun nullish :: "jsval \<Rightarrow> jsval \<Rightarrow> jsval" where
  "nullish JUndefined b = b"
| "nullish JNull b = b"
| "nullish a b = a"

text \<open>
  The value of \<^verbatim>\<open>!event\<close> where \<^verbatim>\<open>event\<close> is a string or
  \<^verbatim>\<open>undefined\<close>: true on \<^verbatim>\<open>undefined\<close> and on the empty string.
\<close>

fun falsy :: "jsval \<Rightarrow> bool" where
  "falsy JUndefined = True"
| "falsy JNull = True"
| "falsy (JBool b) = (\<not> b)"
| "falsy (JNum n) = (n = NaN \<or> n = Fin 0)"
| "falsy (JStr s) = (s = [])"
| "falsy v = False"

text \<open>
  \<^verbatim>\<open>JSON.stringify\<close>, with the JSON text represented by the value it denotes:
  a property whose value is \<^verbatim>\<open>undefined\<close> is left out, \<^verbatim>\<open>undefined\<close>
  inside an array and a non-finite number become \<^verbatim>\<open>null\<close>.
\<close>

fun JSON_stringify :: "jsval \<Rightarrow> jsval" where
  "JSON_stringify (JNum n) = (if isFinite n then JNum n else JNull)"
| "JSON_stringify (JArr xs) =
     JArr (map (\<lambda>x. if x = JUndefined then JNull else JSON_stringify x) xs)"
| "JSON_stringify (JObj kvs) =
     JObj (map (\<lambda>kv. (fst kv, JSON_stringify (snd kv)))
            (filter (\<lambda>kv. snd kv \<noteq> JUndefined) kvs))"
| "JSON_stringify v = v"

section \<open>The runtime and the configuration\<close>

text \<open>
  Two built-ins of the JavaScript runtime that \<^verbatim>\<open>toNum\<close> calls on strings are
  parameters of the model: \<^verbatim>\<open>Number(v)\<close> and \<^verbatim>\<open>v.trim()\<close>.
\<close>

record runtime =
  js_Number :: "string \<Rightarrow> jsnum"
  js_trim :: "string \<Rightarrow> string"

text \<open>
  The constants read from the environment at start-up.  \<^verbatim>\<open>MAX_BUFFER\<close> and the
  two window sizes are taken as integers, as their defaults (2000, 300, 1000) are.
\<close>

record config =
  MAX_BUFFER :: nat
  ANALYSIS_DEFAULT_WINDOW :: int
  ANALYSIS_MAX_WINDOW :: int
  TELEMETRY1_PATH :: string
  TELEMETRY2_PATH :: string

section \<open>Normalisation\<close>

fun toNum :: "runtime \<Rightarrow> jsval \<Rightarrow> jsval" where
  "toNum rt (JNum n) = (if isFinite n then JNum n else JUndefined)"
| "toNum rt (JStr s) =
     (if js_trim rt s \<noteq> [] \<and> isFinite (js_Number rt s) then JNum (js_Number rt s)
      else JUndefined)"
| "toNum rt v = JUndefined"

text \<open>
  The result of a normaliser: \<^verbatim>\<open>{ ok: false, error }\<close> or
  \<^verbatim>\<open>{ ok: true, msg }\<close>.
\<close>

datatype norm = NormFail string | NormOk jsval

text \<open>\<^verbatim>\<open>Date.now()\<close> is the argument \<open>now\<close> (integer milliseconds).\<close>

definition normalizeSample :: "runtime \<Rightarrow> int \<Rightarrow> jsval \<Rightarrow> norm" where
  "normalizeSample rt now body =
     (let pitch = toNum rt (getProp body ''pitch'') in
      if pitch = JUndefined then NormFail ''pitch must be a number''
      else
        let ts = nullish (toNum rt (getProp body ''ts'')) (JNum (Fin (of_int now))) in
        NormOk (JObj
          [(''kind'', JStr ''sample''),
           (''ax'', toNum rt (getProp body ''ax'')),
           (''ay'', toNum rt (getProp body ''ay'')),
           (''az'', toNum rt (getProp body ''az'')),
           (''pitch'', pitch),
           (''pitch_smooth'', toNum rt (getProp body ''pitch_smooth'')),
           (''roll'', toNum rt (getProp body ''roll'')),
           (''a_mag'', toNum rt (getProp body ''a_mag'')),
           (''dpitch'', toNum rt (getProp body ''dpitch'')),
           (''baseline_pitch'', toNum rt (getProp body ''baseline_pitch'')),
           (''button'', toNum rt (getProp body ''button'')),
           (''button_click'', toNum rt (getProp body ''button_click'')),
           (''ts'', ts)]))"

definition normalizeEvent :: "runtime \<Rightarrow> int \<Rightarrow> jsval \<Rightarrow> norm" where
  "normalizeEvent rt now body =
     (let event = (if typeof_string (getProp body ''event'') then getProp body ''event''
                   else JUndefined) in
      if falsy event then NormFail ''event must be a string''
      else
        let ts = nullish (toNum rt (getProp body ''ts'')) (JNum (Fin (of_int now))) in
        NormOk (JObj (AList.update ''ts'' ts
                       (AList.update ''kind'' (JStr ''event'') (spread body)))))"

section \<open>The store, the subscribers and the effects\<close>

datatype readyState = CONNECTING | OPEN | CLOSING | CLOSED

record client =
  cid :: nat
  readyState :: readyState

text \<open>
  Every effect of the server is written to a trace in the order in which the code
  performs it: the assignment to \<^verbatim>\<open>latest1\<close> or \<^verbatim>\<open>latest2\<close>, the line
  appended to a log file, the message sent to a socket, and the \<^verbatim>\<open>push\<close> and
  \<^verbatim>\<open>shift\<close> on a history array.
\<close>

datatype effect =
    SetLatest nat jsval
  | AppendFile string jsval
  | WsSend nat jsval
  | HistPush nat jsval
  | HistShift nat

record state =
  latest1 :: jsval
  latest2 :: jsval
  history1 :: "jsval list"
  history2 :: "jsval list"
  clients :: "client list"
  trace :: "effect list"

text \<open>The module's initial state; the two \<^verbatim>\<open>Date.now()\<close> calls are \<open>t1\<close>, \<open>t2\<close>.\<close>

definition init_state :: "int \<Rightarrow> int \<Rightarrow> state" where
  "init_state t1 t2 =
     \<lparr> latest1 = JObj [(''pitch'', JNum (Fin 0)), (''ts'', JNum (Fin (of_int t1))),
                       (''source'', JNum (Fin 1))],
       latest2 = JObj [(''pitch'', JNum (Fin 0)), (''ts'', JNum (Fin (of_int t2))),
                       (''source'', JNum (Fin 2))],
       history1 = [], history2 = [], clients = [], trace = [] \<rparr>"

definition emit :: "effect list \<Rightarrow> state \<Rightarrow> state" where
  "emit es st = st\<lparr>trace := trace st @ es\<rparr>"

definition appendNdjson :: "string \<Rightarrow> jsval \<Rightarrow> state \<Rightarrow> state" where
  "appendNdjson filePath obj st = emit [AppendFile filePath (JSON_stringify obj)] st"

text \<open>The loop of \<^verbatim>\<open>broadcast\<close> over \<^verbatim>\<open>wss.clients\<close>.\<close>

fun send_each :: "client list \<Rightarrow> jsval \<Rightarrow> effect list" where
  "send_each [] msg = []"
| "send_each (c # cs) msg =
     (if readyState c = OPEN then WsSend (cid c) msg # send_each cs msg
      else send_each cs msg)"

definition broadcast :: "jsval \<Rightarrow> state \<Rightarrow> state" where
  "broadcast obj st = (let msg = JSON_stringify obj in emit (send_each (clients st) msg) st)"

text \<open>The handler of \<^verbatim>\<open>wss.on("connection")\<close> for the socket \<open>ws\<close>.\<close>

definition on_connection :: "nat \<Rightarrow> state \<Rightarrow> state" where
  "on_connection ws st =
     (let st1 = emit [WsSend ws (JSON_stringify (latest1 st))] st in
      emit [WsSend ws (JSON_stringify (latest2 st1))] st1)"

text \<open>
  \<^verbatim>\<open>handleIncoming\<close> receives the history array by reference and the assignment
  to \<^verbatim>\<open>latest\<close> as a closure.  The reference is one of the two arrays.
\<close>

datatype href = History1 | History2

fun hist :: "href \<Rightarrow> state \<Rightarrow> jsval list" where
  "hist History1 st = history1 st"
| "hist History2 st = history2 st"

fun hist_push :: "href \<Rightarrow> jsval \<Rightarrow> state \<Rightarrow> state" where
  "hist_push History1 m st = emit [HistPush 1 m] (st\<lparr>history1 := history1 st @ [m]\<rparr>)"
| "hist_push History2 m st = emit [HistPush 2 m] (st\<lparr>history2 := history2 st @ [m]\<rparr>)"

fun hist_shift :: "href \<Rightarrow> state \<Rightarrow> state" where
  "hist_shift History1 st = emit [HistShift 1] (st\<lparr>history1 := tl (history1 st)\<rparr>)"
| "hist_shift History2 st = emit [HistShift 2] (st\<lparr>history2 := tl (history2 st)\<rparr>)"

definition setLatest1 :: "jsval \<Rightarrow> state \<Rightarrow> state" where
  "setLatest1 m st = emit [SetLatest 1 m] (st\<lparr>latest1 := m\<rparr>)"

definition setLatest2 :: "jsval \<Rightarrow> state \<Rightarrow> state" where
  "setLatest2 m st = emit [SetLatest 2 m] (st\<lparr>latest2 := m\<rparr>)"

text \<open>The \<^verbatim>\<open>payload\<close> of a response: \<^verbatim>\<open>{ ok: true }\<close> or the failed \<open>norm\<close>.\<close>

datatype payload = Ack | Rejected string

record response =
  ok :: bool
  status :: nat
  payload :: payload

section \<open>Ingest\<close>

definition handleIncoming ::
  "runtime \<Rightarrow> config \<Rightarrow> int \<Rightarrow> jsval \<Rightarrow> nat \<Rightarrow> string \<Rightarrow> href \<Rightarrow> (jsval \<Rightarrow> state \<Rightarrow> state)
     \<Rightarrow> state \<Rightarrow> response \<times> state" where
  "handleIncoming rt cfg now reqBody source telemetryPath historyArr setLatest st =
     (if typeof_string (getProp reqBody ''event'') then
        (case normalizeEvent rt now reqBody of
           NormFail e \<Rightarrow> (\<lparr>ok = False, status = 400, payload = Rejected e\<rparr>, st)
         | NormOk m \<Rightarrow>
             let msg = JObj (AList.update ''source'' (JNum (Fin (of_nat source))) (spread m));
                 st1 = appendNdjson telemetryPath msg st;
                 st2 = broadcast msg st1;
                 st3 = hist_push historyArr msg st2;
                 st4 = (if length (hist historyArr st3) > MAX_BUFFER cfg
                        then hist_shift historyArr st3 else st3)
             in (\<lparr>ok = True, status = 200, payload = Ack\<rparr>, st4))
      else
        (case normalizeSample rt now reqBody of
           NormFail e \<Rightarrow> (\<lparr>ok = False, status = 400, payload = Rejected e\<rparr>, st)
         | NormOk m \<Rightarrow>
             let msg = JObj (AList.update ''source'' (JNum (Fin (of_nat source))) (spread m));
                 st0 = setLatest msg st;
                 st1 = appendNdjson telemetryPath msg st0;
                 st2 = broadcast msg st1;
                 st3 = hist_push historyArr msg st2;
                 st4 = (if length (hist historyArr st3) > MAX_BUFFER cfg
                        then hist_shift historyArr st3 else st3)
             in (\<lparr>ok = True, status = 200, payload = Ack\<rparr>, st4)))"

text \<open>The two ingress routes, \<^verbatim>\<open>POST /imu\<close> and \<^verbatim>\<open>POST /imu2\<close>.\<close>

definition post_imu :: "runtime \<Rightarrow> config \<Rightarrow> int \<Rightarrow> jsval \<Rightarrow> state \<Rightarrow> response \<times> state" where
  "post_imu rt cfg now body st =
     handleIncoming rt cfg now body 1 (TELEMETRY1_PATH cfg) History1 setLatest1 st"

definition post_imu2 :: "runtime \<Rightarrow> config \<Rightarrow> int \<Rightarrow> jsval \<Rightarrow> state \<Rightarrow> response \<times> state" where
  "post_imu2 rt cfg now body st =
     handleIncoming rt cfg now body 2 (TELEMETRY2_PATH cfg) History2 setLatest2 st"

text \<open>The read routes: \<^verbatim>\<open>res.json\<close> serialises what it is given.\<close>

definition get_latest1 :: "state \<Rightarrow> jsval" where
  "get_latest1 st = JSON_stringify (latest1 st)"

definition get_latest2 :: "state \<Rightarrow> jsval" where
  "get_latest2 st = JSON_stringify (latest2 st)"

section \<open>Sequences of requests\<close>

text \<open>
  What reaches the server: a body posted to one of the two routes at a given time, a
  socket that connects, a socket that closes.  The \<^verbatim>\<open>ws\<close> library adds a
  socket to \<^verbatim>\<open>wss.clients\<close> before it emits \<^verbatim>\<open>connection\<close> and
  removes it when the socket closes.
\<close>

datatype request =
    PostImu jsval int
  | PostImu2 jsval int
  | WsConnect nat
  | WsClose nat

fun step :: "runtime \<Rightarrow> config \<Rightarrow> request \<Rightarrow> state \<Rightarrow> state" where
  "step rt cfg (PostImu body now) st = snd (post_imu rt cfg now body st)"
| "step rt cfg (PostImu2 body now) st = snd (post_imu2 rt cfg now body st)"
| "step rt cfg (WsConnect ws) st =
     on_connection ws (st\<lparr>clients := clients st @ [\<lparr>cid = ws, readyState = OPEN\<rparr>]\<rparr>)"
| "step rt cfg (WsClose ws) st = st\<lparr>clients := filter (\<lambda>c. cid c \<noteq> ws) (clients st)\<rparr>"

fun run :: "runtime \<Rightarrow> config \<Rightarrow> request list \<Rightarrow> state \<Rightarrow> state" where
  "run rt cfg [] st = st"
| "run rt cfg (r # rs) st = run rt cfg rs (step rt cfg r st)"

text \<open>
  The record that \<^verbatim>\<open>handleIncoming\<close> builds from a body, when it builds one:
  \<^verbatim>\<open>{ ...norm.msg, source }\<close> of the branch that the body takes.
\<close>

definition with_source :: "nat \<Rightarrow> jsval \<Rightarrow> jsval" where
  "with_source source m = JObj (AList.update ''source'' (JNum (Fin (of_nat source))) (spread m))"

definition sample_record :: "runtime \<Rightarrow> int \<Rightarrow> jsval \<Rightarrow> nat \<Rightarrow> jsval option" where
  "sample_record rt now body source =
     (if typeof_string (getProp body ''event'') then None
      else case normalizeSample rt now body of
             NormFail e \<Rightarrow> None | NormOk m \<Rightarrow> Some (with_source source m))"

definition event_record :: "runtime \<Rightarrow> int \<Rightarrow> jsval \<Rightarrow> nat \<Rightarrow> jsval option" where
  "event_record rt now body source =
     (if typeof_string (getProp body ''event'') then
        case normalizeEvent rt now body of
          NormFail e \<Rightarrow> None | NormOk m \<Rightarrow> Some (with_source source m)
      else None)"

definition accepted_record :: "runtime \<Rightarrow> int \<Rightarrow> jsval \<Rightarrow> nat \<Rightarrow> jsval option" where
  "accepted_record rt now body source =
     (if typeof_string (getProp body ''event'') then event_record rt now body source
      else sample_record rt now body source)"

text \<open>The records a request gets accepted for the source behind a history array.\<close>

fun accepted_of :: "runtime \<Rightarrow> href \<Rightarrow> request \<Rightarrow> jsval list" where
  "accepted_of rt History1 (PostImu body now) =
     (case accepted_record rt now body 1 of None \<Rightarrow> [] | Some m \<Rightarrow> [m])"
| "accepted_of rt History2 (PostImu2 body now) =
     (case accepted_record rt now body 2 of None \<Rightarrow> [] | Some m \<Rightarrow> [m])"
| "accepted_of rt h r = []"

fun samples_of :: "runtime \<Rightarrow> href \<Rightarrow> request \<Rightarrow> jsval list" where
  "samples_of rt History1 (PostImu body now) =
     (case sample_record rt now body 1 of None \<Rightarrow> [] | Some m \<Rightarrow> [m])"
| "samples_of rt History2 (PostImu2 body now) =
     (case sample_record rt now body 2 of None \<Rightarrow> [] | Some m \<Rightarrow> [m])"
| "samples_of rt h r = []"

fun latest_of :: "href \<Rightarrow> state \<Rightarrow> jsval" where
  "latest_of History1 st = latest1 st"
| "latest_of History2 st = latest2 st"

text \<open>What a socket has been sent, read off the trace.\<close>

fun inbox :: "nat \<Rightarrow> effect list \<Rightarrow> jsval list" where
  "inbox ws [] = []"
| "inbox ws (WsSend c m # es) = (if c = ws then m # inbox ws es else inbox ws es)"
| "inbox ws (e # es) = inbox ws es"

section \<open>The analysis window\<close>

text \<open>
  The part of \<^verbatim>\<open>POST /gemini/analyze\<close> that picks the samples
  (\<^verbatim>\<open>windowReq\<close> to \<^verbatim>\<open>combinedSamples\<close>).  The comparator of the sort is
  \<^verbatim>\<open>(a.ts ?? 0) - (b.ts ?? 0)\<close>; \<^verbatim>\<open>Array.prototype.sort\<close> is stable.
\<close>

definition ts_or_0 :: "jsval \<Rightarrow> rat" where
  "ts_or_0 a = (case nullish (getProp a ''ts'') (JNum (Fin 0)) of JNum (Fin r) \<Rightarrow> r | _ \<Rightarrow> 0)"

definition analysis_window :: "runtime \<Rightarrow> config \<Rightarrow> jsval \<Rightarrow> int" where
  "analysis_window rt cfg body =
     (let windowReq = (case toNum rt (getProp body ''window'') of
                         JNum (Fin r) \<Rightarrow> r
                       | _ \<Rightarrow> of_int (ANALYSIS_DEFAULT_WINDOW cfg))
      in max 20 (min (ANALYSIS_MAX_WINDOW cfg) (floor windowReq)))"

definition pickWindow :: "int \<Rightarrow> jsval list \<Rightarrow> jsval list" where
  "pickWindow window arr = drop (nat (max 0 (int (length arr) - window))) arr"

definition is_sample :: "jsval \<Rightarrow> bool" where
  "is_sample x \<longleftrightarrow> getProp x ''kind'' = JStr ''sample''"

definition combinedSamples :: "runtime \<Rightarrow> config \<Rightarrow> jsval \<Rightarrow> state \<Rightarrow> jsval list \<times> state" where
  "combinedSamples rt cfg body st =
     (let window = analysis_window rt cfg body;
          source = nullish (getProp body ''source'') (JStr ''both'');
          s1 = filter is_sample (pickWindow window (history1 st));
          s2 = filter is_sample (pickWindow window (history2 st))
      in (if source = JNum (Fin 1) \<or> source = JStr ''1'' then s1
          else if source = JNum (Fin 2) \<or> source = JStr ''2'' then s2
          else sort_key ts_or_0 (s1 @ s2), st))"

section \<open>A runtime for the examples\<close>

text \<open>
  The examples below are evaluated with a runtime that reads the strings they use as
  JavaScript does and trims spaces.
\<close>

definition example_Number :: "string \<Rightarrow> jsnum" where
  "example_Number s =
     (if s = ''12.5'' then Fin (25 / 2) else if s = ''10'' then Fin 10
      else if s = [] \<or> s = '' '' then Fin 0 else NaN)"

definition example_trim :: "string \<Rightarrow> string" where
  "example_trim s = rev (dropWhile (\<lambda>c. c = CHR '' '') (rev (dropWhile (\<lambda>c. c = CHR '' '') s)))"

definition example_runtime :: runtime where
  "example_runtime = \<lparr>js_Number = example_Number, js_trim = example_trim\<rparr>"

definition example_config :: config where
  "example_config = \<lparr>MAX_BUFFER = 2, ANALYSIS_DEFAULT_WINDOW = 300, ANALYSIS_MAX_WINDOW = 1000,
     TELEMETRY1_PATH = ''telemetry.ndjson'', TELEMETRY2_PATH = ''telemetry2.ndjson''\<rparr>"

section \<open>Notions used to state the properties\<close>

text \<open>
  The last \<open>n\<close> elements of a list, and all records accepted for a source by a
  sequence of requests, in the order of acceptance.
\<close>

definition lastn :: "nat \<Rightarrow> 'a list \<Rightarrow> 'a list" where
  "lastn n xs = drop (length xs - n) xs"

definition accepted_records :: "runtime \<Rightarrow> href \<Rightarrow> request list \<Rightarrow> jsval list" where
  "accepted_records rt h rs = concat (map (accepted_of rt h) rs)"

text \<open>
  A record carries its three tags when \<^verbatim>\<open>kind\<close> is \<^verbatim>\<open>"sample"\<close> or
  \<^verbatim>\<open>"event"\<close> and \<^verbatim>\<open>source\<close> and \<^verbatim>\<open>ts\<close> are finite numbers.  An
  effect is tagged when what it writes to a file or a socket is.
\<close>

fun is_finite_num :: "jsval \<Rightarrow> bool" where
  "is_finite_num (JNum n) = isFinite n"
| "is_finite_num v = False"

definition tagged :: "jsval \<Rightarrow> bool" where
  "tagged m \<longleftrightarrow>
     (getProp m ''kind'' = JStr ''sample'' \<or> getProp m ''kind'' = JStr ''event'')
     \<and> is_finite_num (getProp m ''source'') \<and> is_finite_num (getProp m ''ts'')"

fun payload_tagged :: "effect \<Rightarrow> bool" where
  "payload_tagged (AppendFile p m) = tagged m"
| "payload_tagged (WsSend c m) = tagged m"
| "payload_tagged e = True"

text \<open>
  The optional numeric fields of a sample, in the order of the object literal of
  \<^verbatim>\<open>normalizeSample\<close>.
\<close>

definition optional_fields :: "string list" where
  "optional_fields = [''ax'', ''ay'', ''az'', ''pitch_smooth'', ''roll'', ''a_mag'', ''dpitch'',
     ''baseline_pitch'', ''button'', ''button_click'']"

text \<open>
  The samples among the last \<open>n\<close> records of a history, and the source selector
  \<^verbatim>\<open>req.body?.source ?? "both"\<close> of the analysis route.
\<close>

definition recent_samples :: "nat \<Rightarrow> jsval list \<Rightarrow> jsval list" where
  "recent_samples n arr = filter is_sample (drop (length arr - n) arr)"

definition selector :: "jsval \<Rightarrow> jsval" where
  "selector body = nullish (getProp body ''source'') (JStr ''both'')"

text \<open>
  Following the spec's words (\<open>accept numeric or numeric-string input; reject NaN and
  non-numeric\<close>): the finite number that a raw value stands for, if it stands for one.
  A missing value, \<^verbatim>\<open>null\<close>, a boolean, a non-finite number, an array, an object,
  a blank string and a string that \<^verbatim>\<open>Number\<close> does not read as a finite number
  stand for none.
\<close>

fun coercible_value :: "runtime \<Rightarrow> jsval \<Rightarrow> rat option" where
  "coercible_value rt JUndefined = None"
| "coercible_value rt JNull = None"
| "coercible_value rt (JBool b) = None"
| "coercible_value rt (JNum (Fin x)) = Some x"
| "coercible_value rt (JNum PosInf) = None"
| "coercible_value rt (JNum NegInf) = None"
| "coercible_value rt (JNum NaN) = None"
| "coercible_value rt (JStr s) =
     (if js_trim rt s = [] then None
      else case js_Number rt s of
             Fin x \<Rightarrow> Some x | PosInf \<Rightarrow> None | NegInf \<Rightarrow> None | NaN \<Rightarrow> None)"
| "coercible_value rt (JArr xs) = None"
| "coercible_value rt (JObj kvs) = None"

text \<open>
  The size that a body requests of the analysis route: the number its \<^verbatim>\<open>window\<close>
  stands for, and \<^verbatim>\<open>ANALYSIS_DEFAULT_WINDOW\<close> when it stands for none.
\<close>

definition requested_size :: "runtime \<Rightarrow> config \<Rightarrow> jsval \<Rightarrow> rat" where
  "requested_size rt cfg body =
     (case coercible_value rt (getProp body ''window'') of
        Some x \<Rightarrow> x | None \<Rightarrow> of_int (ANALYSIS_DEFAULT_WINDOW cfg))"


definition example_histories :: state where
  "example_histories = (init_state 5 6)
     \<lparr>history1 := [JObj [(''kind'', JStr ''event''), (''ts'', JNum (Fin 5))],
                   JObj [(''kind'', JStr ''sample''), (''ts'', JNum (Fin 30))],
                   JObj [(''kind'', JStr ''sample''), (''ts'', JNum (Fin 10))]],
      history2 := [JObj [(''kind'', JStr ''sample''), (''ts'', JNum (Fin 20))]]\<rparr>"

text \<open>
  A state for the examples whose first history holds 21 records: a sample, 19 events and
  a sample.
\<close>

definition example_long_history :: state where
  "example_long_history = (init_state 5 6)
     \<lparr>history1 := JObj [(''kind'', JStr ''sample''), (''ts'', JNum (Fin 1))]
                   # replicate 19 (JObj [(''kind'', JStr ''event''), (''ts'', JNum (Fin 2))])
                   @ [JObj [(''kind'', JStr ''sample''), (''ts'', JNum (Fin 3))]]\<rparr>"

lemmas eval_defs = sample_record_def event_record_def accepted_record_def normalizeSample_def
  normalizeEvent_def with_source_def example_runtime_def example_Number_def example_trim_def
  example_config_def init_state_def post_imu_def post_imu2_def handleIncoming_def Let_def
  appendNdjson_def broadcast_def emit_def setLatest1_def setLatest2_def on_connection_def
  get_latest1_def get_latest2_def

section \<open>Objects and serialisation\<close>


lemma getProp_update:
  "getProp (JObj (AList.update k v kvs)) k' = (if k' = k then v else getProp (JObj kvs) k')"
  by (simp add: update_conv')

lemma map_of_stringify_fields:
  "map_of kvs k = Some v \<Longrightarrow> v \<noteq> JUndefined \<Longrightarrow>
   map_of (map (\<lambda>kv. (fst kv, JSON_stringify (snd kv))) (filter (\<lambda>kv. snd kv \<noteq> JUndefined) kvs)) k
     = Some (JSON_stringify v)"
  by (induction kvs) (auto split: if_splits)

lemma getProp_stringify:
  "getProp (JObj kvs) k = v \<Longrightarrow> v \<noteq> JUndefined \<Longrightarrow>
   getProp (JSON_stringify (JObj kvs)) k = JSON_stringify v"
  by (cases "map_of kvs k") (auto simp: map_of_stringify_fields)

lemma stringify_keys_defined:
  assumes "distinct (map fst kvs)" and "getProp (JObj kvs) f = JUndefined"
  shows "f \<notin> fst ` set (spread (JSON_stringify (JObj kvs)))"
proof
  assume "f \<in> fst ` set (spread (JSON_stringify (JObj kvs)))"
  then obtain v where v: "(f, v) \<in> set kvs" "v \<noteq> JUndefined"
    by (auto simp: image_iff)
  with assms(1) have "map_of kvs f = Some v" by simp
  with assms(2) v(2) show False by simp
qed

lemma stringify_absent:
  assumes "getProp (JObj kvs) f = JUndefined" and "distinct (map fst kvs)"
  shows "getProp (JSON_stringify (JObj kvs)) f = JUndefined"
proof (cases "map_of (spread (JSON_stringify (JObj kvs))) f")
  case None
  then show ?thesis by simp
next
  case (Some v)
  then have "(f, v) \<in> set (spread (JSON_stringify (JObj kvs)))"
    by (rule map_of_SomeD)
  then have "f \<in> fst ` set (spread (JSON_stringify (JObj kvs)))"
    by (rule rev_image_eqI) simp
  with stringify_keys_defined [OF assms(2) assms(1)] show ?thesis by simp
qed

lemma toNum_cases: "toNum rt v = JUndefined \<or> (\<exists>r. toNum rt v = JNum (Fin r))"
proof (cases v)
  case (JNum n)
  then show ?thesis by (cases n) simp_all
next
  case (JStr s)
  then show ?thesis by (cases "js_Number rt s") simp_all
qed simp_all

lemma toNum_coercible:
  "toNum rt v = (case coercible_value rt v of None \<Rightarrow> JUndefined | Some x \<Rightarrow> JNum (Fin x))"
proof (cases v)
  case (JNum n)
  then show ?thesis by (cases n) simp_all
next
  case (JStr s)
  then show ?thesis by (cases "js_Number rt s") simp_all
qed simp_all

lemma ts_is_finite: "is_finite_num (nullish (toNum rt v) (JNum (Fin t)))"
  using toNum_cases [of rt v] by auto

lemma is_finite_num_stringify: "is_finite_num v \<Longrightarrow> JSON_stringify v = v"
  by (cases v) auto

lemma tagged_stringify:
  assumes "tagged m"
  shows "tagged (JSON_stringify m)"
proof (cases m)
  case (JObj kvs)
  from assms JObj have k: "getProp (JObj kvs) ''kind'' = JStr ''sample'' \<or> getProp (JObj kvs) ''kind'' = JStr ''event''"
    and s: "is_finite_num (getProp (JObj kvs) ''source'')"
    and t: "is_finite_num (getProp (JObj kvs) ''ts'')"
    by (simp_all add: tagged_def)
  from k have k': "getProp (JSON_stringify (JObj kvs)) ''kind'' = getProp (JObj kvs) ''kind''"
    using getProp_stringify [of kvs "''kind''"] by auto
  from s have "getProp (JObj kvs) ''source'' \<noteq> JUndefined" by auto
  then have s': "getProp (JSON_stringify (JObj kvs)) ''source'' = getProp (JObj kvs) ''source''"
    using getProp_stringify [of kvs "''source''"] is_finite_num_stringify [OF s] by simp
  from t have "getProp (JObj kvs) ''ts'' \<noteq> JUndefined" by auto
  then have t': "getProp (JSON_stringify (JObj kvs)) ''ts'' = getProp (JObj kvs) ''ts''"
    using getProp_stringify [of kvs "''ts''"] is_finite_num_stringify [OF t] by simp
  show ?thesis unfolding JObj tagged_def k' s' t' using k s t by simp
qed (use assms in \<open>simp_all add: tagged_def\<close>)

section \<open>What one request does\<close>

lemma trace_emit [simp]: "trace (emit es st) = trace st @ es"
  and latest1_emit [simp]: "latest1 (emit es st) = latest1 st"
  and latest2_emit [simp]: "latest2 (emit es st) = latest2 st"
  and history1_emit [simp]: "history1 (emit es st) = history1 st"
  and history2_emit [simp]: "history2 (emit es st) = history2 st"
  and clients_emit [simp]: "clients (emit es st) = clients st"
  by (simp_all add: emit_def)

lemma handleIncoming_accept:
  assumes "accepted_record rt now body source = Some msg"
  shows "handleIncoming rt cfg now body source p h setLatest st =
     (\<lparr>ok = True, status = 200, payload = Ack\<rparr>,
      (let st0 = (if typeof_string (getProp body ''event'') then st else setLatest msg st);
           st3 = hist_push h msg (broadcast msg (appendNdjson p msg st0))
       in if length (hist h st3) > MAX_BUFFER cfg then hist_shift h st3 else st3))"
  using assms
  by (auto simp: handleIncoming_def accepted_record_def event_record_def sample_record_def
      with_source_def Let_def split: norm.splits if_splits)

lemma handleIncoming_reject:
  assumes "accepted_record rt now body source = None"
  shows "handleIncoming rt cfg now body source p h setLatest st =
     (\<lparr>ok = False, status = 400,
       payload = Rejected (if typeof_string (getProp body ''event'') then ''event must be a string''
                           else ''pitch must be a number'')\<rparr>, st)"
  using assms
  by (auto simp: handleIncoming_def accepted_record_def event_record_def sample_record_def
      normalizeEvent_def normalizeSample_def Let_def split: norm.splits if_splits)

lemma sample_record_accepted:
  "sample_record rt now body source = Some m \<Longrightarrow> accepted_record rt now body source = Some m"
  by (auto simp: accepted_record_def sample_record_def split: if_splits)

lemma accepted_record_fields:
  assumes "accepted_record rt now body source = Some m"
  shows "getProp m ''kind'' = (if typeof_string (getProp body ''event'') then JStr ''event''
                               else JStr ''sample'')"
    and "getProp m ''source'' = JNum (Fin (of_nat source))"
    and "getProp m ''ts'' = nullish (toNum rt (getProp body ''ts'')) (JNum (Fin (of_int now)))"
    and "\<exists>kvs. m = JObj kvs"
  using assms
  by (auto simp: accepted_record_def event_record_def sample_record_def normalizeEvent_def
      normalizeSample_def with_source_def Let_def update_conv' split: if_splits)

lemma accepted_record_tagged:
  assumes "accepted_record rt now body source = Some m"
  shows "tagged m"
  using accepted_record_fields(1-3) [OF assms] by (simp add: tagged_def ts_is_finite)

lemma samples_of_tagged: "m \<in> set (samples_of rt h r) \<Longrightarrow> tagged m"
  by (cases "(rt, h, r)" rule: samples_of.cases)
     (auto split: option.splits dest: sample_record_accepted [OF sym] accepted_record_tagged)

lemma accepted_of_tagged: "m \<in> set (accepted_of rt h r) \<Longrightarrow> tagged m"
  by (cases "(rt, h, r)" rule: accepted_of.cases)
     (auto split: option.splits dest: accepted_record_tagged [OF sym])

lemma trace_post_imu:
  "trace (snd (post_imu rt cfg now body st)) = trace st @
     (case accepted_record rt now body 1 of
        None \<Rightarrow> []
      | Some m \<Rightarrow>
          (if typeof_string (getProp body ''event'') then [] else [SetLatest 1 m])
          @ AppendFile (TELEMETRY1_PATH cfg) (JSON_stringify m)
          # send_each (clients st) (JSON_stringify m)
          @ HistPush 1 m # (if MAX_BUFFER cfg \<le> length (history1 st) then [HistShift 1] else []))"
  by (cases "accepted_record rt now body 1")
     (simp_all add: post_imu_def handleIncoming_accept handleIncoming_reject Let_def
        broadcast_def appendNdjson_def setLatest1_def)

lemma trace_post_imu2:
  "trace (snd (post_imu2 rt cfg now body st)) = trace st @
     (case accepted_record rt now body 2 of
        None \<Rightarrow> []
      | Some m \<Rightarrow>
          (if typeof_string (getProp body ''event'') then [] else [SetLatest 2 m])
          @ AppendFile (TELEMETRY2_PATH cfg) (JSON_stringify m)
          # send_each (clients st) (JSON_stringify m)
          @ HistPush 2 m # (if MAX_BUFFER cfg \<le> length (history2 st) then [HistShift 2] else []))"
  by (cases "accepted_record rt now body 2")
     (simp_all add: post_imu2_def handleIncoming_accept handleIncoming_reject Let_def
        broadcast_def appendNdjson_def setLatest2_def)



lemma trace_on_connection:
  "trace (on_connection ws st) =
     trace st @ [WsSend ws (JSON_stringify (latest1 st)), WsSend ws (JSON_stringify (latest2 st))]"
  by (simp add: on_connection_def Let_def)

lemma trace_step_grows: "\<exists>es. trace (step rt cfg r st) = trace st @ es"
proof (cases r)
  case (PostImu body now)
  then show ?thesis by (simp add: trace_post_imu)
next
  case (PostImu2 body now)
  then show ?thesis by (simp add: trace_post_imu2)
next
  case (WsConnect ws)
  then show ?thesis by (simp add: trace_on_connection)
next
  case (WsClose ws)
  then show ?thesis by simp
qed

lemma trace_run_grows: "\<exists>es. trace (run rt cfg rs st) = trace st @ es"
proof (induction rs arbitrary: st)
  case Nil
  show ?case by simp
next
  case (Cons r rs)
  obtain es1 where "trace (step rt cfg r st) = trace st @ es1"
    using trace_step_grows by blast
  moreover obtain es2 where "trace (run rt cfg rs (step rt cfg r st)) = trace (step rt cfg r st) @ es2"
    using Cons.IH by blast
  ultimately show ?case by simp
qed

lemma inbox_append: "inbox ws (es @ fs) = inbox ws es @ inbox ws fs"
  by (induction ws es rule: inbox.induct) simp_all

lemma send_each_tagged: "tagged msg \<Longrightarrow> list_all payload_tagged (send_each cs msg)"
  by (induction cs) simp_all

lemma post_imu_effects_tagged:
  "list_all payload_tagged (drop (length (trace st)) (trace (snd (post_imu rt cfg now body st))))"
proof (cases "accepted_record rt now body 1")
  case None
  then show ?thesis by (simp add: trace_post_imu)
next
  case (Some m)
  then have "tagged (JSON_stringify m)"
    using accepted_record_tagged tagged_stringify by blast
  with Some show ?thesis by (simp add: trace_post_imu send_each_tagged)
qed

lemma post_imu2_effects_tagged:
  "list_all payload_tagged (drop (length (trace st)) (trace (snd (post_imu2 rt cfg now body st))))"
proof (cases "accepted_record rt now body 2")
  case None
  then show ?thesis by (simp add: trace_post_imu2)
next
  case (Some m)
  then have "tagged (JSON_stringify m)"
    using accepted_record_tagged tagged_stringify by blast
  with Some show ?thesis by (simp add: trace_post_imu2 send_each_tagged)
qed

section \<open>The store along a sequence of requests\<close>

lemma lastn_lastn_append: "lastn n (lastn n xs @ ys) = lastn n (xs @ ys)"
proof (cases "length xs \<le> n")
  case True
  then show ?thesis by (simp add: lastn_def)
next
  case False
  then have "drop (length xs - n) xs @ ys = drop (length xs - n) (xs @ ys)" by simp
  moreover from False have "length (drop (length xs - n) xs) = n" by simp
  ultimately show ?thesis using False by (simp add: lastn_def add.commute del: drop_append)
qed

lemma length_lastn: "length (lastn n xs) \<le> n"
  by (simp add: lastn_def)

lemma push_shift_lastn:
  assumes "length xs \<le> n"
  shows "(if length (xs @ [m]) > n then tl (xs @ [m]) else xs @ [m]) = lastn n (xs @ [m])"
proof (cases "length xs = n")
  case True
  then have e: "length (xs @ [m]) - n = Suc 0" by simp
  have "lastn n (xs @ [m]) = drop (Suc 0) (xs @ [m])"
    unfolding lastn_def e ..
  also have "\<dots> = tl (xs @ [m])"
    by (simp only: drop_Suc drop_0)
  finally have "lastn n (xs @ [m]) = tl (xs @ [m])" .
  moreover have "n < length (xs @ [m])" using True by simp
  ultimately show ?thesis by (simp only: if_True)
next
  case False
  with assms have "length xs < n" by simp
  then show ?thesis by (simp add: lastn_def)
qed

lemma hist_post_imu:
  "hist h (snd (post_imu rt cfg now body st)) =
     (case accepted_of rt h (PostImu body now) of
        [] \<Rightarrow> hist h st
      | m # _ \<Rightarrow> (if length (hist h st @ [m]) > MAX_BUFFER cfg then tl (hist h st @ [m])
                  else hist h st @ [m]))"
  by (cases "accepted_record rt now body 1"; cases h)
     (simp_all add: post_imu_def handleIncoming_accept handleIncoming_reject Let_def
        broadcast_def appendNdjson_def setLatest1_def)

lemma hist_post_imu2:
  "hist h (snd (post_imu2 rt cfg now body st)) =
     (case accepted_of rt h (PostImu2 body now) of
        [] \<Rightarrow> hist h st
      | m # _ \<Rightarrow> (if length (hist h st @ [m]) > MAX_BUFFER cfg then tl (hist h st @ [m])
                  else hist h st @ [m]))"
  by (cases "accepted_record rt now body 2"; cases h)
     (simp_all add: post_imu2_def handleIncoming_accept handleIncoming_reject Let_def
        broadcast_def appendNdjson_def setLatest2_def)

lemma hist_on_connection [simp]: "hist h (on_connection ws st) = hist h st"
  by (cases h) (simp_all add: on_connection_def Let_def)

lemma hist_step:
  assumes "length (hist h st) \<le> MAX_BUFFER cfg"
  shows "hist h (step rt cfg r st) = lastn (MAX_BUFFER cfg) (hist h st @ accepted_of rt h r)"
proof (cases r)
  case (PostImu body now)
  show ?thesis
  proof (cases "accepted_of rt h r")
    case Nil
    with PostImu assms show ?thesis by (simp add: hist_post_imu lastn_def)
  next
    case (Cons m ms)
    then have "accepted_of rt h r = [m]" using PostImu
      by (cases h) (auto split: option.splits)
    with PostImu assms show ?thesis
      using push_shift_lastn [OF assms, of m] by (simp add: hist_post_imu)
  qed
next
  case (PostImu2 body now)
  show ?thesis
  proof (cases "accepted_of rt h r")
    case Nil
    with PostImu2 assms show ?thesis by (simp add: hist_post_imu2 lastn_def)
  next
    case (Cons m ms)
    then have "accepted_of rt h r = [m]" using PostImu2
      by (cases h) (auto split: option.splits)
    with PostImu2 assms show ?thesis
      using push_shift_lastn [OF assms, of m] by (simp add: hist_post_imu2)
  qed
next
  case (WsConnect ws)
  with assms show ?thesis by (cases h) (simp_all add: lastn_def)
next
  case (WsClose ws)
  with assms show ?thesis by (cases h) (simp_all add: lastn_def)
qed

lemma hist_run:
  assumes "length (hist h st) \<le> MAX_BUFFER cfg"
  shows "hist h (run rt cfg rs st) =
           lastn (MAX_BUFFER cfg) (hist h st @ concat (map (accepted_of rt h) rs))"
  using assms
proof (induction rs arbitrary: st)
  case Nil
  then show ?case by (simp add: lastn_def)
next
  case (Cons r rs)
  have "length (hist h (step rt cfg r st)) \<le> MAX_BUFFER cfg"
    using hist_step [OF Cons.prems] by (simp add: length_lastn)
  then have "hist h (run rt cfg (r # rs) st) =
      lastn (MAX_BUFFER cfg) (hist h (step rt cfg r st) @ concat (map (accepted_of rt h) rs))"
    using Cons.IH by simp
  also have "\<dots> = lastn (MAX_BUFFER cfg)
      (lastn (MAX_BUFFER cfg) (hist h st @ accepted_of rt h r) @ concat (map (accepted_of rt h) rs))"
    by (simp add: hist_step [OF Cons.prems])
  also have "\<dots> = lastn (MAX_BUFFER cfg)
      ((hist h st @ accepted_of rt h r) @ concat (map (accepted_of rt h) rs))"
    by (rule lastn_lastn_append)
  finally show ?case by simp
qed

lemma latest_post_imu:
  "latest_of h (snd (post_imu rt cfg now body st)) = last (latest_of h st # samples_of rt h (PostImu body now))"
proof (cases "accepted_record rt now body 1")
  case None
  then have "sample_record rt now body 1 = None \<or> h = History2"
    by (auto simp: accepted_record_def sample_record_def split: if_splits)
  with None show ?thesis
    by (cases h) (auto simp: post_imu_def handleIncoming_reject sample_record_def)
next
  case (Some m)
  show ?thesis
  proof (cases "typeof_string (getProp body ''event'')")
    case True
    with Some show ?thesis
      by (cases h; cases "MAX_BUFFER cfg < Suc (length (history1 st))")
         (simp_all add: post_imu_def handleIncoming_accept Let_def sample_record_def
          broadcast_def appendNdjson_def)
  next
    case False
    with Some have "sample_record rt now body 1 = Some m"
      by (simp add: accepted_record_def)
    with Some False show ?thesis
      by (cases h; cases "MAX_BUFFER cfg < Suc (length (history1 st))")
         (simp_all add: post_imu_def handleIncoming_accept Let_def
          broadcast_def appendNdjson_def setLatest1_def)
  qed
qed

lemma latest_post_imu2:
  "latest_of h (snd (post_imu2 rt cfg now body st)) = last (latest_of h st # samples_of rt h (PostImu2 body now))"
proof (cases "accepted_record rt now body 2")
  case None
  then have "sample_record rt now body 2 = None \<or> h = History1"
    by (auto simp: accepted_record_def sample_record_def split: if_splits)
  with None show ?thesis
    by (cases h) (auto simp: post_imu2_def handleIncoming_reject sample_record_def)
next
  case (Some m)
  show ?thesis
  proof (cases "typeof_string (getProp body ''event'')")
    case True
    with Some show ?thesis
      by (cases h; cases "MAX_BUFFER cfg < Suc (length (history2 st))")
         (simp_all add: post_imu2_def handleIncoming_accept Let_def sample_record_def
          broadcast_def appendNdjson_def)
  next
    case False
    with Some have "sample_record rt now body 2 = Some m"
      by (simp add: accepted_record_def)
    with Some False show ?thesis
      by (cases h; cases "MAX_BUFFER cfg < Suc (length (history2 st))")
         (simp_all add: post_imu2_def handleIncoming_accept Let_def
          broadcast_def appendNdjson_def setLatest2_def)
  qed
qed

lemma latest_step:
  "latest_of h (step rt cfg r st) = last (latest_of h st # samples_of rt h r)"
proof (cases r)
  case (PostImu body now)
  then show ?thesis by (simp add: latest_post_imu)
next
  case (PostImu2 body now)
  then show ?thesis by (simp add: latest_post_imu2)
next
  case (WsConnect ws)
  then show ?thesis by (cases h) (simp_all add: on_connection_def Let_def)
next
  case (WsClose ws)
  then show ?thesis by (cases h) simp_all
qed

lemma last_last_append: "last (last (x # ys) # zs) = last ((x # ys) @ zs)"
proof (cases "zs = []")
  case True
  then show ?thesis by simp
next
  case False
  then have "last (last (x # ys) # zs) = last zs" by simp
  moreover from False have "last ((x # ys) @ zs) = last zs" by (simp only: last_append if_False)
  ultimately show ?thesis by simp
qed

lemma latest_run:
  "latest_of h (run rt cfg rs st) = last (latest_of h st # concat (map (samples_of rt h) rs))"
proof (induction rs arbitrary: st)
  case Nil
  show ?case by simp
next
  case (Cons r rs)
  have "latest_of h (run rt cfg (r # rs) st) =
        last (last (latest_of h st # samples_of rt h r) # concat (map (samples_of rt h) rs))"
    by (simp add: Cons.IH latest_step)
  also have "\<dots> = last ((latest_of h st # samples_of rt h r) @ concat (map (samples_of rt h) rs))"
    by (rule last_last_append)
  finally show ?case by simp
qed

text \<open>
  Every record in a history carries its tags, so the sort key \<open>ts_or_0\<close> of the
  analysis window is the record's own \<^verbatim>\<open>ts\<close>.
\<close>

lemma hist_step_subset:
  "set (hist h (step rt cfg r st)) \<subseteq> set (hist h st) \<union> set (accepted_of rt h r)"
proof (cases r)
  case (PostImu body now)
  then show ?thesis
    by (cases "accepted_of rt h (PostImu body now)")
       (auto simp: hist_post_imu dest: list.set_sel(2) [rotated])
next
  case (PostImu2 body now)
  then show ?thesis
    by (cases "accepted_of rt h (PostImu2 body now)")
       (auto simp: hist_post_imu2 dest: list.set_sel(2) [rotated])
next
  case (WsConnect ws)
  then show ?thesis by (cases h) simp_all
next
  case (WsClose ws)
  then show ?thesis by (cases h) simp_all
qed

lemma history_records_tagged:
  assumes "list_all tagged (hist h st)"
  shows "list_all tagged (hist h (run rt cfg rs st))"
  using assms
proof (induction rs arbitrary: st)
  case Nil
  then show ?case by simp
next
  case (Cons r rs)
  have "list_all tagged (hist h (step rt cfg r st))"
    using hist_step_subset [of h rt cfg r st] Cons.prems accepted_of_tagged
    by (auto simp: list_all_iff)
  then show ?case using Cons.IH by simp
qed

lemma tagged_ts: "tagged m \<Longrightarrow> getProp m ''ts'' = JNum (Fin (ts_or_0 m))"
proof -
  assume "tagged m"
  then have "is_finite_num (getProp m ''ts'')" by (simp add: tagged_def)
  then obtain r where "getProp m ''ts'' = JNum (Fin r)"
    by (cases "getProp m ''ts''" rule: is_finite_num.cases)
       (auto elim: isFinite.elims)
  then show ?thesis by (simp add: ts_or_0_def)
qed

section \<open>Normalisation of samples\<close>

lemma normalizeSample_cong:
  assumes "\<And>k. toNum rt (getProp b1 k) = toNum rt (getProp b2 k)"
  shows "normalizeSample rt now b1 = normalizeSample rt now b2"
  by (simp add: normalizeSample_def Let_def assms)

lemma normalizeSample_ts:
  assumes "toNum rt (getProp b ''ts'') \<noteq> JUndefined"
  shows "normalizeSample rt now1 b = normalizeSample rt now2 b"
proof -
  from assms toNum_cases [of rt "getProp b ''ts''"]
  obtain r where "toNum rt (getProp b ''ts'') = JNum (Fin r)" by blast
  then show ?thesis by (simp add: normalizeSample_def Let_def)
qed

lemma normalizeSample_now:
  assumes "toNum rt (getProp b ''pitch'') \<noteq> JUndefined"
  shows "\<exists>m1 m2. normalizeSample rt now1 b = NormOk m1 \<and> normalizeSample rt now2 b = NormOk m2
           \<and> (\<forall>k. k \<noteq> ''ts'' \<longrightarrow> getProp m1 k = getProp m2 k)"
  using assms by (simp add: normalizeSample_def Let_def)

lemma normalizeSample_ok:
  assumes "toNum rt (getProp body ''pitch'') \<noteq> JUndefined"
  shows "\<exists>kvs. normalizeSample rt now body = NormOk (JObj kvs) \<and> distinct (map fst kvs)
           \<and> (\<forall>f \<in> set optional_fields. map_of kvs f = Some (toNum rt (getProp body f)))"
  using assms by (simp add: normalizeSample_def Let_def optional_fields_def)

lemma analysis_window_clamp:
  "analysis_window rt cfg body
     = max 20 (min (ANALYSIS_MAX_WINDOW cfg) \<lfloor>requested_size rt cfg body\<rfloor>)"
  by (cases "coercible_value rt (getProp body ''window'')")
     (simp_all add: analysis_window_def requested_size_def
        toNum_coercible [of rt "getProp body ''window''"])

lemma clamp_cases:
  fixes w r M :: int
  assumes "w = max 20 (min M r)"
  shows "20 \<le> w \<and> (r < 20 \<longrightarrow> w = 20) \<and> (20 \<le> r \<and> r \<le> M \<longrightarrow> w = r)
    \<and> (20 \<le> M \<and> M < r \<longrightarrow> w = M) \<and> (M < 20 \<longrightarrow> w = 20)
    \<and> (20 \<le> M \<longrightarrow> w \<le> M)"
  using assms by (auto simp: max_def min_def)

lemma pickWindow_recent:
  assumes "0 \<le> w"
  shows "filter is_sample (pickWindow w arr) = recent_samples (nat w) arr"
proof -
  have "nat (max 0 (int (length arr) - w)) = length arr - nat w"
    using assms by linarith
  then show ?thesis by (simp add: pickWindow_def recent_samples_def)
qed

section \<open>Latest record (C1)\<close>




section \<open>Reasons of rejection (C2)\<close>

text \<open>
  C2, amended.  \<^verbatim>\<open>handleIncoming\<close> rejects with the reason
  \<^verbatim>\<open>"pitch must be a number"\<close> exactly when \<^verbatim>\<open>event\<close> is not of type string
  and \<^verbatim>\<open>pitch\<close> is not coercible.  A body whose \<^verbatim>\<open>event\<close> is not of type
  string and whose \<^verbatim>\<open>pitch\<close> is coercible is accepted as a sample.  A body whose
  \<^verbatim>\<open>event\<close> is the empty string is rejected with the reason
  \<^verbatim>\<open>"event must be a string"\<close> and no effect, whatever its \<^verbatim>\<open>pitch\<close>.
\<close>

theorem C2_reasons:
  "(payload (fst (handleIncoming rt cfg now body source p h setLatest st))
       = Rejected ''pitch must be a number'')
     = (\<not> typeof_string (getProp body ''event'') \<and> toNum rt (getProp body ''pitch'') = JUndefined)
   \<and> (\<not> typeof_string (getProp body ''event'') \<and> toNum rt (getProp body ''pitch'') \<noteq> JUndefined \<longrightarrow>
        fst (handleIncoming rt cfg now body source p h setLatest st)
          = \<lparr>ok = True, status = 200, payload = Ack\<rparr>
        \<and> (\<exists>m. sample_record rt now body source = Some m \<and> getProp m ''kind'' = JStr ''sample''))
   \<and> (getProp body ''event'' = JStr [] \<longrightarrow>
        handleIncoming rt cfg now body source p h setLatest st
          = (\<lparr>ok = False, status = 400, payload = Rejected ''event must be a string''\<rparr>, st))"
proof (intro conjI impI)
  show "(payload (fst (handleIncoming rt cfg now body source p h setLatest st))
       = Rejected ''pitch must be a number'')
     = (\<not> typeof_string (getProp body ''event'') \<and> toNum rt (getProp body ''pitch'') = JUndefined)"
    by (simp add: handleIncoming_def normalizeSample_def normalizeEvent_def Let_def)
next
  assume a: "\<not> typeof_string (getProp body ''event'') \<and> toNum rt (getProp body ''pitch'') \<noteq> JUndefined"
  then show "fst (handleIncoming rt cfg now body source p h setLatest st)
          = \<lparr>ok = True, status = 200, payload = Ack\<rparr>"
    by (simp add: handleIncoming_def normalizeSample_def Let_def)
  from a show "\<exists>m. sample_record rt now body source = Some m \<and> getProp m ''kind'' = JStr ''sample''"
    by (simp add: sample_record_def normalizeSample_def with_source_def Let_def update_conv')
next
  assume "getProp body ''event'' = JStr []"
  then show "handleIncoming rt cfg now body source p h setLatest st
          = (\<lparr>ok = False, status = 400, payload = Rejected ''event must be a string''\<rparr>, st)"
    by (simp add: handleIncoming_def normalizeEvent_def)
qed

theorem C2_reasons_witness:
  "payload (fst (post_imu example_runtime example_config 100 (JObj [(''pitch'', JStr ''abc'')])
       (init_state 5 6))) = Rejected ''pitch must be a number''
   \<and> \<not> typeof_string (getProp (JObj [(''event'', JNum (Fin 3)), (''pitch'', JStr ''10'')]) ''event'')
   \<and> toNum example_runtime (getProp (JObj [(''event'', JNum (Fin 3)), (''pitch'', JStr ''10'')]) ''pitch'')
       \<noteq> JUndefined
   \<and> fst (post_imu example_runtime example_config 100
       (JObj [(''event'', JNum (Fin 3)), (''pitch'', JStr ''10'')]) (init_state 5 6))
       = \<lparr>ok = True, status = 200, payload = Ack\<rparr>
   \<and> getProp (JObj [(''event'', JStr [])]) ''event'' = JStr []
   \<and> post_imu example_runtime example_config 100 (JObj [(''event'', JStr [])]) (init_state 5 6)
       = (\<lparr>ok = False, status = 400, payload = Rejected ''event must be a string''\<rparr>,
          init_state 5 6)"
proof -
  let ?b = "JObj [(''event'', JNum (Fin 3)), (''pitch'', JStr ''10'')]"
  have a1: "\<not> typeof_string (getProp (JObj [(''pitch'', JStr ''abc'')]) ''event'')
     \<and> toNum example_runtime (getProp (JObj [(''pitch'', JStr ''abc'')]) ''pitch'') = JUndefined"
    by (simp add: example_runtime_def example_Number_def)
  have a2: "\<not> typeof_string (getProp ?b ''event'')" by simp
  have a3: "toNum example_runtime (getProp ?b ''pitch'') \<noteq> JUndefined"
    by (simp add: example_runtime_def example_Number_def example_trim_def)
  have a4: "getProp (JObj [(''event'', JStr [])]) ''event'' = JStr []" by simp
  note t = C2_reasons [where rt = example_runtime and cfg = example_config and now = 100
      and source = 1 and p = "TELEMETRY1_PATH example_config" and h = History1
      and setLatest = setLatest1 and st = "init_state 5 6"]
  have r1: "payload (fst (post_imu example_runtime example_config 100 (JObj [(''pitch'', JStr ''abc'')])
       (init_state 5 6))) = Rejected ''pitch must be a number''"
    using t [where body = "JObj [(''pitch'', JStr ''abc'')]", THEN conjunct1] a1
    unfolding post_imu_def by blast
  have r2: "fst (post_imu example_runtime example_config 100 ?b (init_state 5 6))
       = \<lparr>ok = True, status = 200, payload = Ack\<rparr>"
    using t [where body = ?b, THEN conjunct2, THEN conjunct1] a2 a3
    unfolding post_imu_def by blast
  have r3: "post_imu example_runtime example_config 100 (JObj [(''event'', JStr [])]) (init_state 5 6)
       = (\<lparr>ok = False, status = 400, payload = Rejected ''event must be a string''\<rparr>,
          init_state 5 6)"
    using t [where body = "JObj [(''event'', JStr [])]", THEN conjunct2, THEN conjunct2] a4
    unfolding post_imu_def by blast
  from r1 a2 a3 r2 a4 r3 show ?thesis by (intro conjI)
qed

text \<open>
  The claim as it is written fails on \<^verbatim>\<open>{"event": "", "pitch": 10}\<close>: the
  \<^verbatim>\<open>pitch\<close> is coercible, and the body is rejected with status 400.
\<close>

theorem C2_empty_event_rejected:
  "toNum example_runtime (getProp (JObj [(''event'', JStr []), (''pitch'', JNum (Fin 10))]) ''pitch'')
     = JNum (Fin 10)
   \<and> post_imu example_runtime example_config 100
        (JObj [(''event'', JStr []), (''pitch'', JNum (Fin 10))]) (init_state 5 6)
     = (\<lparr>ok = False, status = 400, payload = Rejected ''event must be a string''\<rparr>, init_state 5 6)"
  by (simp add: eval_defs)

section \<open>Rejection (C3)\<close>

text \<open>
  C3.  A body that has neither a string \<^verbatim>\<open>event\<close> nor a \<^verbatim>\<open>pitch\<close> that
  \<^verbatim>\<open>toNum\<close> can coerce is rejected with status 400, and the state that
  \<^verbatim>\<open>handleIncoming\<close> returns is the state it was given: \<^verbatim>\<open>latest\<close> and the
  history of both sources are unchanged and the trace has gained no effect, so no line
  was appended to a log file and no message was sent to a socket.
\<close>

theorem C3_rejection_has_no_effect:
  assumes "\<not> typeof_string (getProp reqBody ''event'')"
    and "toNum rt (getProp reqBody ''pitch'') = JUndefined"
  shows "handleIncoming rt cfg now reqBody source telemetryPath historyArr setLatest st =
           (\<lparr>ok = False, status = 400, payload = Rejected ''pitch must be a number''\<rparr>, st)"
  using assms by (simp add: handleIncoming_def normalizeSample_def)

theorem C3_rejection_has_no_effect_witness:
  "\<not> typeof_string (getProp (JObj [(''pitch'', JStr ''abc'')]) ''event'')
   \<and> toNum example_runtime (getProp (JObj [(''pitch'', JStr ''abc'')]) ''pitch'') = JUndefined
   \<and> post_imu example_runtime example_config 1700000000000 (JObj [(''pitch'', JStr ''abc'')])
        (init_state 5 6)
      = (\<lparr>ok = False, status = 400, payload = Rejected ''pitch must be a number''\<rparr>,
         init_state 5 6)"
proof -
  let ?body = "JObj [(''pitch'', JStr ''abc'')]"
  have a: "\<not> typeof_string (getProp ?body ''event'')" by simp
  have b: "toNum example_runtime (getProp ?body ''pitch'') = JUndefined"
    by (simp add: example_runtime_def example_Number_def)
  show ?thesis
    using a b C3_rejection_has_no_effect [OF a b] by (simp add: post_imu_def)
qed

section \<open>Bounded history (C4)\<close>

text \<open>
  C4.  Starting from an empty history, after any sequence of requests the history of a
  source holds the last \<open>min N MAX_BUFFER\<close> of the \<open>N\<close> records accepted for that
  source, in the order of acceptance; with \<open>N = MAX_BUFFER + k\<close> the first \<open>k\<close> are gone
  and the length is \<open>MAX_BUFFER\<close>.
\<close>

theorem C4_bounded_history:
  assumes "hist h st = []"
  shows "hist h (run rt cfg rs st)
           = drop (length (accepted_records rt h rs) - MAX_BUFFER cfg) (accepted_records rt h rs)
    \<and> length (hist h (run rt cfg rs st)) = min (length (accepted_records rt h rs)) (MAX_BUFFER cfg)
    \<and> (length (accepted_records rt h rs) = MAX_BUFFER cfg + k \<longrightarrow>
         hist h (run rt cfg rs st) = drop k (accepted_records rt h rs)
         \<and> length (hist h (run rt cfg rs st)) = MAX_BUFFER cfg)"
proof -
  have "length (hist h st) \<le> MAX_BUFFER cfg" using assms by simp
  then have e: "hist h (run rt cfg rs st)
           = drop (length (accepted_records rt h rs) - MAX_BUFFER cfg) (accepted_records rt h rs)"
    using hist_run [of h st cfg rt rs] assms by (simp add: lastn_def accepted_records_def)
  then have l: "length (hist h (run rt cfg rs st))
           = min (length (accepted_records rt h rs)) (MAX_BUFFER cfg)"
    by simp
  have "length (accepted_records rt h rs) = MAX_BUFFER cfg + k \<longrightarrow>
         hist h (run rt cfg rs st) = drop k (accepted_records rt h rs)
         \<and> length (hist h (run rt cfg rs st)) = MAX_BUFFER cfg"
    using e l by simp
  with e l show ?thesis by (intro conjI)
qed

theorem C4_bounded_history_witness:
  "hist History1 (init_state 5 6) = []
   \<and> MAX_BUFFER example_config = 2
   \<and> map (\<lambda>m. getProp m ''pitch'')
       (accepted_records example_runtime History1
          [PostImu (JObj [(''pitch'', JNum (Fin 1))]) 101,
           PostImu (JObj [(''pitch'', JNum (Fin 2))]) 102,
           PostImu2 (JObj [(''pitch'', JNum (Fin 9))]) 103,
           PostImu (JObj [(''pitch'', JNum (Fin 3))]) 104])
      = [JNum (Fin 1), JNum (Fin 2), JNum (Fin 3)]
   \<and> map (\<lambda>m. getProp m ''pitch'')
       (hist History1 (run example_runtime example_config
          [PostImu (JObj [(''pitch'', JNum (Fin 1))]) 101,
           PostImu (JObj [(''pitch'', JNum (Fin 2))]) 102,
           PostImu2 (JObj [(''pitch'', JNum (Fin 9))]) 103,
           PostImu (JObj [(''pitch'', JNum (Fin 3))]) 104]
          (init_state 5 6)))
      = [JNum (Fin 2), JNum (Fin 3)]"
proof -
  have a: "hist History1 (init_state 5 6) = []" by (simp add: init_state_def)
  have b: "MAX_BUFFER example_config = 2" by (simp add: example_config_def)
  note t = C4_bounded_history [OF a, of example_runtime example_config
      "[PostImu (JObj [(''pitch'', JNum (Fin 1))]) 101,
        PostImu (JObj [(''pitch'', JNum (Fin 2))]) 102,
        PostImu2 (JObj [(''pitch'', JNum (Fin 9))]) 103,
        PostImu (JObj [(''pitch'', JNum (Fin 3))]) 104]" 1, THEN conjunct1]
  have c: "map (\<lambda>m. getProp m ''pitch'')
       (accepted_records example_runtime History1
          [PostImu (JObj [(''pitch'', JNum (Fin 1))]) 101,
           PostImu (JObj [(''pitch'', JNum (Fin 2))]) 102,
           PostImu2 (JObj [(''pitch'', JNum (Fin 9))]) 103,
           PostImu (JObj [(''pitch'', JNum (Fin 3))]) 104])
      = [JNum (Fin 1), JNum (Fin 2), JNum (Fin 3)]"
    by (simp add: accepted_records_def eval_defs)
  have d: "map (\<lambda>m. getProp m ''pitch'')
       (hist History1 (run example_runtime example_config
          [PostImu (JObj [(''pitch'', JNum (Fin 1))]) 101,
           PostImu (JObj [(''pitch'', JNum (Fin 2))]) 102,
           PostImu2 (JObj [(''pitch'', JNum (Fin 9))]) 103,
           PostImu (JObj [(''pitch'', JNum (Fin 3))]) 104]
          (init_state 5 6)))
      = [JNum (Fin 2), JNum (Fin 3)]"
    unfolding t by (simp add: accepted_records_def eval_defs)
  from a b c d show ?thesis by (intro conjI)
qed

section \<open>Tags of persisted and broadcast records (C5)\<close>

text \<open>
  C5, amended.  Whatever \<^verbatim>\<open>handleIncoming\<close> appends to a log file or sends to a
  socket carries a \<^verbatim>\<open>kind\<close> that is \<^verbatim>\<open>"sample"\<close> or \<^verbatim>\<open>"event"\<close>, a
  numeric \<^verbatim>\<open>source\<close> and a numeric \<^verbatim>\<open>ts\<close>.  The two catch-up messages of a
  new socket are the serialised \<^verbatim>\<open>latest1\<close> and \<^verbatim>\<open>latest2\<close>; the one of a
  source carries the three tags once a sample has been accepted for that source, and
  until then it is the start-up value, which carries a numeric \<^verbatim>\<open>source\<close> and a
  numeric \<^verbatim>\<open>ts\<close>.
\<close>

theorem C5_tagged_records:
  "list_all payload_tagged (drop (length (trace st)) (trace (snd (post_imu rt cfg now body st))))
   \<and> list_all payload_tagged (drop (length (trace st)) (trace (snd (post_imu2 rt cfg now body st))))
   \<and> drop (length (trace st)) (trace (on_connection ws st))
       = [WsSend ws (JSON_stringify (latest1 st)), WsSend ws (JSON_stringify (latest2 st))]
   \<and> (concat (map (samples_of rt h) rs) \<noteq> [] \<longrightarrow>
        tagged (JSON_stringify (latest_of h (run rt cfg rs (init_state t1 t2)))))
   \<and> (concat (map (samples_of rt h) rs) = [] \<longrightarrow>
        latest_of h (run rt cfg rs (init_state t1 t2)) = latest_of h (init_state t1 t2)
        \<and> is_finite_num (getProp (JSON_stringify (latest_of h (init_state t1 t2))) ''source'')
        \<and> is_finite_num (getProp (JSON_stringify (latest_of h (init_state t1 t2))) ''ts''))"
proof -
  let ?ss = "concat (map (samples_of rt h) rs)"
  have l: "latest_of h (run rt cfg rs (init_state t1 t2)) = last (latest_of h (init_state t1 t2) # ?ss)"
    by (rule latest_run)
  have a: "?ss \<noteq> [] \<longrightarrow> tagged (JSON_stringify (latest_of h (run rt cfg rs (init_state t1 t2))))"
  proof
    assume ne: "?ss \<noteq> []"
    then have "last ?ss \<in> set ?ss" by (rule last_in_set)
    then obtain r where "last ?ss \<in> set (samples_of rt h r)" by auto
    then have "tagged (last ?ss)" by (rule samples_of_tagged)
    then have "tagged (JSON_stringify (last ?ss))" by (rule tagged_stringify)
    moreover from ne have "last (latest_of h (init_state t1 t2) # ?ss) = last ?ss"
      by (rule last_ConsR)
    ultimately show "tagged (JSON_stringify (latest_of h (run rt cfg rs (init_state t1 t2))))"
      by (simp only: l)
  qed
  have b: "?ss = [] \<longrightarrow>
        latest_of h (run rt cfg rs (init_state t1 t2)) = latest_of h (init_state t1 t2)
        \<and> is_finite_num (getProp (JSON_stringify (latest_of h (init_state t1 t2))) ''source'')
        \<and> is_finite_num (getProp (JSON_stringify (latest_of h (init_state t1 t2))) ''ts'')"
    using l by (cases h) (simp_all add: init_state_def)
  have c: "drop (length (trace st)) (trace (on_connection ws st))
       = [WsSend ws (JSON_stringify (latest1 st)), WsSend ws (JSON_stringify (latest2 st))]"
    by (simp add: trace_on_connection)
  from post_imu_effects_tagged post_imu2_effects_tagged c a b show ?thesis by (intro conjI)
qed

theorem C5_tagged_records_witness:
  "concat (map (samples_of example_runtime History1) [PostImu (JObj [(''pitch'', JNum (Fin 10))]) 100])
     \<noteq> []
   \<and> tagged (JSON_stringify (latest_of History1 (run example_runtime example_config
        [PostImu (JObj [(''pitch'', JNum (Fin 10))]) 100] (init_state 5 6))))
   \<and> concat (map (samples_of example_runtime History2) [PostImu (JObj [(''pitch'', JNum (Fin 10))]) 100])
     = []
   \<and> is_finite_num (getProp (JSON_stringify (latest_of History2 (init_state 5 6))) ''source'')
   \<and> list_all payload_tagged (drop (length (trace (init_state 5 6)))
        (trace (snd (post_imu example_runtime example_config 100
           (JObj [(''pitch'', JNum (Fin 10))]) (init_state 5 6)))))"
proof -
  have a: "concat (map (samples_of example_runtime History1)
      [PostImu (JObj [(''pitch'', JNum (Fin 10))]) 100]) \<noteq> []"
    by (simp add: eval_defs)
  have b: "concat (map (samples_of example_runtime History2)
      [PostImu (JObj [(''pitch'', JNum (Fin 10))]) 100]) = []"
    by simp
  note t1 = C5_tagged_records [where rt = example_runtime and cfg = example_config
      and h = History1 and rs = "[PostImu (JObj [(''pitch'', JNum (Fin 10))]) 100]"
      and ?t1.0 = 5 and ?t2.0 = 6 and st = "init_state 5 6" and now = 100
      and body = "JObj [(''pitch'', JNum (Fin 10))]"]
  note t2 = C5_tagged_records [where rt = example_runtime and cfg = example_config
      and h = History2 and rs = "[PostImu (JObj [(''pitch'', JNum (Fin 10))]) 100]"
      and ?t1.0 = 5 and ?t2.0 = 6]
  have c: "tagged (JSON_stringify (latest_of History1 (run example_runtime example_config
        [PostImu (JObj [(''pitch'', JNum (Fin 10))]) 100] (init_state 5 6))))"
    using t1 a by blast
  have d: "is_finite_num (getProp (JSON_stringify (latest_of History2 (init_state 5 6))) ''source'')"
    using t2 b by blast
  have e: "list_all payload_tagged (drop (length (trace (init_state 5 6)))
        (trace (snd (post_imu example_runtime example_config 100
           (JObj [(''pitch'', JNum (Fin 10))]) (init_state 5 6)))))"
    using t1 by blast
  from a c b d e show ?thesis by (intro conjI)
qed

text \<open>
  The claim as it is written fails on the catch-up messages of a socket that connects
  before any sample has been accepted: they are the start-up values
  \<^verbatim>\<open>{ pitch: 0, ts, source }\<close>, which have no \<^verbatim>\<open>kind\<close>.
\<close>

theorem C5_catch_up_without_kind:
  "inbox 7 (trace (step example_runtime example_config (WsConnect 7) (init_state 5 6)))
     = [JObj [(''pitch'', JNum (Fin 0)), (''ts'', JNum (Fin 5)), (''source'', JNum (Fin 1))],
        JObj [(''pitch'', JNum (Fin 0)), (''ts'', JNum (Fin 6)), (''source'', JNum (Fin 2))]]
   \<and> getProp (JObj [(''pitch'', JNum (Fin 0)), (''ts'', JNum (Fin 5)), (''source'', JNum (Fin 1))])
        ''kind'' = JUndefined
   \<and> \<not> tagged (JObj [(''pitch'', JNum (Fin 0)), (''ts'', JNum (Fin 5)), (''source'', JNum (Fin 1))])"
  by (simp add: eval_defs tagged_def)

section \<open>Catch-up on connection (C6)\<close>

text \<open>
  C6.  What a socket has been sent after it connects and any sequence of further
  requests is: what it had been sent before (nothing, for a new socket), then the
  serialised \<^verbatim>\<open>latest1\<close>, then the serialised \<^verbatim>\<open>latest2\<close>, both as they were
  when it connected, and only then whatever was sent to it afterwards.
\<close>

theorem C6_catch_up_first:
  "inbox ws (trace (run rt cfg rs (step rt cfg (WsConnect ws) st))) =
     inbox ws (trace st)
     @ [JSON_stringify (latest1 st), JSON_stringify (latest2 st)]
     @ inbox ws (drop (length (trace st) + 2) (trace (run rt cfg rs (step rt cfg (WsConnect ws) st))))"
proof -
  let ?st1 = "step rt cfg (WsConnect ws) st"
  have t1: "trace ?st1 =
      trace st @ [WsSend ws (JSON_stringify (latest1 st)), WsSend ws (JSON_stringify (latest2 st))]"
    by (simp add: trace_on_connection)
  obtain es where es: "trace (run rt cfg rs ?st1) = trace ?st1 @ es"
    using trace_run_grows by blast
  have "drop (length (trace st) + 2) (trace (run rt cfg rs ?st1)) = es"
    unfolding es t1 by simp
  then show ?thesis
    unfolding es t1 by (simp add: inbox_append)
qed

theorem C6_catch_up_first_witness:
  "inbox 7 (trace (run example_runtime example_config
       [PostImu (JObj [(''pitch'', JNum (Fin 10))]) 100]
       (step example_runtime example_config (WsConnect 7) (init_state 5 6)))) =
     [JObj [(''pitch'', JNum (Fin 0)), (''ts'', JNum (Fin 5)), (''source'', JNum (Fin 1))],
      JObj [(''pitch'', JNum (Fin 0)), (''ts'', JNum (Fin 6)), (''source'', JNum (Fin 2))],
      JObj [(''kind'', JStr ''sample''), (''pitch'', JNum (Fin 10)),
            (''ts'', JNum (Fin 100)), (''source'', JNum (Fin 1))]]"
proof -
  have "inbox 7 (drop (length (trace (init_state 5 6)) + 2)
          (trace (run example_runtime example_config
             [PostImu (JObj [(''pitch'', JNum (Fin 10))]) 100]
             (step example_runtime example_config (WsConnect 7) (init_state 5 6))))) =
        [JObj [(''kind'', JStr ''sample''), (''pitch'', JNum (Fin 10)),
            (''ts'', JNum (Fin 100)), (''source'', JNum (Fin 1))]]"
    by (simp add: eval_defs)
  then show ?thesis
    using C6_catch_up_first [of 7 example_runtime example_config
        "[PostImu (JObj [(''pitch'', JNum (Fin 10))]) 100]" "init_state 5 6"]
    by (simp add: init_state_def)
qed

section \<open>Numeric strings (C7)\<close>

text \<open>
  C7.  Let \<open>s\<close> be a string that the runtime's \<^verbatim>\<open>Number\<close> reads as the finite
  number \<open>x\<close> and that is not blank (as \<^verbatim>\<open>"12.5"\<close> and 12.5).  Then \<^verbatim>\<open>toNum\<close>
  maps \<open>s\<close> and \<open>x\<close> to the same value \<open>x\<close>, and \<^verbatim>\<open>normalizeSample\<close> gives the
  same result on an object with \<^verbatim>\<open>pitch\<close> \<open>s\<close> and on the same object with
  \<^verbatim>\<open>pitch\<close> \<open>x\<close>: equal when normalised at the same time or when the object has a
  coercible \<^verbatim>\<open>ts\<close>, and equal on every field but \<^verbatim>\<open>ts\<close> otherwise.
\<close>

theorem C7_numeric_string_pitch:
  assumes "js_Number rt s = Fin x" and "js_trim rt s \<noteq> []"
  shows "toNum rt (JStr s) = JNum (Fin x) \<and> toNum rt (JNum (Fin x)) = JNum (Fin x)
    \<and> normalizeSample rt now (JObj (AList.update ''pitch'' (JStr s) kvs))
        = normalizeSample rt now (JObj (AList.update ''pitch'' (JNum (Fin x)) kvs))
    \<and> (toNum rt (getProp (JObj kvs) ''ts'') \<noteq> JUndefined \<longrightarrow>
         normalizeSample rt now1 (JObj (AList.update ''pitch'' (JStr s) kvs))
          = normalizeSample rt now2 (JObj (AList.update ''pitch'' (JNum (Fin x)) kvs)))
    \<and> (\<exists>m1 m2. normalizeSample rt now1 (JObj (AList.update ''pitch'' (JStr s) kvs)) = NormOk m1
          \<and> normalizeSample rt now2 (JObj (AList.update ''pitch'' (JNum (Fin x)) kvs)) = NormOk m2
          \<and> (\<forall>k. k \<noteq> ''ts'' \<longrightarrow> getProp m1 k = getProp m2 k))"
proof -
  let ?b1 = "JObj (AList.update ''pitch'' (JStr s) kvs)"
  let ?b2 = "JObj (AList.update ''pitch'' (JNum (Fin x)) kvs)"
  have c: "toNum rt (JStr s) = JNum (Fin x)" using assms by simp
  have c2: "toNum rt (JNum (Fin x)) = JNum (Fin x)" by simp
  have eq: "toNum rt (getProp ?b1 k) = toNum rt (getProp ?b2 k)" for k
    using c c2 by (simp add: getProp_update del: toNum.simps getProp.simps)
  have same: "normalizeSample rt t ?b1 = normalizeSample rt t ?b2" for t
    by (rule normalizeSample_cong) (rule eq)
  have ts: "getProp ?b2 ''ts'' = getProp (JObj kvs) ''ts''"
    by (simp add: getProp_update del: getProp.simps)
  have p: "toNum rt (getProp ?b2 ''pitch'') \<noteq> JUndefined"
    using c2 by (simp add: getProp_update del: getProp.simps toNum.simps)
  have 1: "toNum rt (getProp (JObj kvs) ''ts'') \<noteq> JUndefined \<longrightarrow>
         normalizeSample rt now1 ?b1 = normalizeSample rt now2 ?b2"
    using normalizeSample_ts [of rt ?b2 now1 now2] same [of now1] ts by simp
  have 2: "\<exists>m1 m2. normalizeSample rt now1 ?b1 = NormOk m1
          \<and> normalizeSample rt now2 ?b2 = NormOk m2
          \<and> (\<forall>k. k \<noteq> ''ts'' \<longrightarrow> getProp m1 k = getProp m2 k)"
    using normalizeSample_now [OF p, of now1 now2] same [of now1] by simp
  from c c2 same [of now] 1 2 show ?thesis by (intro conjI)
qed

theorem C7_numeric_string_pitch_witness:
  "js_Number example_runtime ''12.5'' = Fin (25 / 2) \<and> js_trim example_runtime ''12.5'' \<noteq> []
   \<and> normalizeSample example_runtime 100 (JObj [(''pitch'', JStr ''12.5''), (''ts'', JNum (Fin 42))])
     = normalizeSample example_runtime 200 (JObj [(''pitch'', JNum (Fin (25 / 2))), (''ts'', JNum (Fin 42))])
   \<and> normalizeSample example_runtime 100 (JObj [(''pitch'', JStr ''12.5''), (''ts'', JNum (Fin 42))])
     = NormOk (JObj [(''kind'', JStr ''sample''), (''ax'', JUndefined), (''ay'', JUndefined),
     (''az'', JUndefined), (''pitch'', JNum (Fin (25 / 2))), (''pitch_smooth'', JUndefined),
     (''roll'', JUndefined), (''a_mag'', JUndefined), (''dpitch'', JUndefined),
     (''baseline_pitch'', JUndefined), (''button'', JUndefined), (''button_click'', JUndefined),
     (''ts'', JNum (Fin 42))])"
proof -
  have a: "js_Number example_runtime ''12.5'' = Fin (25 / 2)"
    by (simp add: example_runtime_def example_Number_def)
  have b: "js_trim example_runtime ''12.5'' \<noteq> []"
    by (simp add: example_runtime_def example_trim_def)
  have c: "toNum example_runtime (getProp (JObj [(''pitch'', JNum (Fin 0)), (''ts'', JNum (Fin 42))]) ''ts'') \<noteq> JUndefined"
    by simp
  have d: "normalizeSample example_runtime 100 (JObj [(''pitch'', JStr ''12.5''), (''ts'', JNum (Fin 42))])
     = NormOk (JObj [(''kind'', JStr ''sample''), (''ax'', JUndefined), (''ay'', JUndefined),
     (''az'', JUndefined), (''pitch'', JNum (Fin (25 / 2))), (''pitch_smooth'', JUndefined),
     (''roll'', JUndefined), (''a_mag'', JUndefined), (''dpitch'', JUndefined),
     (''baseline_pitch'', JUndefined), (''button'', JUndefined), (''button_click'', JUndefined),
     (''ts'', JNum (Fin 42))])"
    by (simp add: eval_defs)
  note t = C7_numeric_string_pitch [OF a b, of 100 "[(''pitch'', JNum (Fin 0)), (''ts'', JNum (Fin 42))]" 100 200]
  have e: "normalizeSample example_runtime 100 (JObj [(''pitch'', JStr ''12.5''), (''ts'', JNum (Fin 42))])
     = normalizeSample example_runtime 200 (JObj [(''pitch'', JNum (Fin (25 / 2))), (''ts'', JNum (Fin 42))])"
    using t [THEN conjunct2, THEN conjunct2, THEN conjunct2, THEN conjunct1] c by simp
  from a b e d show ?thesis by (intro conjI)
qed

section \<open>Optional fields (C8)\<close>

text \<open>
  C8.  Let \<open>f\<close> be one of the ten optional numeric fields, and let the body be one that
  takes the sample branch with a coercible \<^verbatim>\<open>pitch\<close>.  Then the body is accepted
  whatever its \<open>f\<close> is, and the field \<open>f\<close> of the record is \<^verbatim>\<open>toNum\<close> of the raw
  value.  When the raw value is missing or stands for no finite number (it is
  \<^verbatim>\<open>null\<close>, a boolean, \<^verbatim>\<open>NaN\<close>, an infinity, an array, an object, a blank
  string or a string that \<^verbatim>\<open>Number\<close> does not read as a finite number), the field
  is \<^verbatim>\<open>undefined\<close>, not zero, and the serialised record has no such key.  When the
  raw value stands for the finite number \<open>x\<close>, zero included, the field is \<open>x\<close> and the
  serialised record keeps it.
\<close>

theorem C8_optional_fields:
  assumes "f \<in> set optional_fields"
    and "\<not> typeof_string (getProp body ''event'')"
    and "toNum rt (getProp body ''pitch'') \<noteq> JUndefined"
  shows "\<exists>m. sample_record rt now body source = Some m
           \<and> fst (handleIncoming rt cfg now body source p h setLatest st)
               = \<lparr>ok = True, status = 200, payload = Ack\<rparr>
           \<and> getProp m f = toNum rt (getProp body f)
           \<and> (getProp body f = JUndefined \<or> toNum rt (getProp body f) = JUndefined \<longrightarrow>
                getProp m f = JUndefined \<and> getProp m f \<noteq> JNum (Fin 0)
                \<and> getProp (JSON_stringify m) f = JUndefined
                \<and> f \<notin> fst ` set (spread (JSON_stringify m)))
           \<and> (coercible_value rt (getProp body f) = None \<longrightarrow>
                getProp m f = JUndefined \<and> getProp m f \<noteq> JNum (Fin 0)
                \<and> getProp (JSON_stringify m) f = JUndefined
                \<and> f \<notin> fst ` set (spread (JSON_stringify m)))
           \<and> (\<forall>x. coercible_value rt (getProp body f) = Some x \<longrightarrow>
                getProp m f = JNum (Fin x) \<and> getProp (JSON_stringify m) f = JNum (Fin x))"
proof -
  obtain kvs where n: "normalizeSample rt now body = NormOk (JObj kvs)"
    and d: "distinct (map fst kvs)"
    and fs: "\<forall>f \<in> set optional_fields. map_of kvs f = Some (toNum rt (getProp body f))"
    using normalizeSample_ok [OF assms(3)] by blast
  let ?kvs = "AList.update ''source'' (JNum (Fin (of_nat source))) kvs"
  let ?m = "JObj ?kvs"
  have sr: "sample_record rt now body source = Some ?m"
    using assms(2) n by (simp add: sample_record_def with_source_def)
  have acc: "fst (handleIncoming rt cfg now body source p h setLatest st)
               = \<lparr>ok = True, status = 200, payload = Ack\<rparr>"
    using assms(2) n by (simp add: handleIncoming_def Let_def)
  have "f \<noteq> ''source''" using assms(1) by (auto simp: optional_fields_def)
  then have g: "getProp ?m f = toNum rt (getProp body f)"
    using fs assms(1) by (simp add: update_conv')
  have d': "distinct (map fst ?kvs)" using d by (simp add: distinct_update)
  have u: "toNum rt JUndefined = JUndefined" by simp
  have absent: "getProp ?m f = JUndefined \<and> getProp ?m f \<noteq> JNum (Fin 0)
        \<and> getProp (JSON_stringify ?m) f = JUndefined
        \<and> f \<notin> fst ` set (spread (JSON_stringify ?m))"
    if "toNum rt (getProp body f) = JUndefined"
  proof -
    from that g have z: "getProp ?m f = JUndefined" by simp
    with stringify_absent [OF z d'] stringify_keys_defined [OF d' z] show ?thesis by simp
  qed
  have c1: "getProp body f = JUndefined \<or> toNum rt (getProp body f) = JUndefined \<longrightarrow>
        getProp ?m f = JUndefined \<and> getProp ?m f \<noteq> JNum (Fin 0)
        \<and> getProp (JSON_stringify ?m) f = JUndefined
        \<and> f \<notin> fst ` set (spread (JSON_stringify ?m))"
  proof
    assume "getProp body f = JUndefined \<or> toNum rt (getProp body f) = JUndefined"
    with u have "toNum rt (getProp body f) = JUndefined" by auto
    then show "getProp ?m f = JUndefined \<and> getProp ?m f \<noteq> JNum (Fin 0)
        \<and> getProp (JSON_stringify ?m) f = JUndefined
        \<and> f \<notin> fst ` set (spread (JSON_stringify ?m))"
      by (rule absent)
  qed
  have c2: "coercible_value rt (getProp body f) = None \<longrightarrow>
        getProp ?m f = JUndefined \<and> getProp ?m f \<noteq> JNum (Fin 0)
        \<and> getProp (JSON_stringify ?m) f = JUndefined
        \<and> f \<notin> fst ` set (spread (JSON_stringify ?m))"
  proof
    assume "coercible_value rt (getProp body f) = None"
    then have "toNum rt (getProp body f) = JUndefined"
      by (simp add: toNum_coercible [of rt "getProp body f"])
    then show "getProp ?m f = JUndefined \<and> getProp ?m f \<noteq> JNum (Fin 0)
        \<and> getProp (JSON_stringify ?m) f = JUndefined
        \<and> f \<notin> fst ` set (spread (JSON_stringify ?m))"
      by (rule absent)
  qed
  have c3: "\<forall>x. coercible_value rt (getProp body f) = Some x \<longrightarrow>
        getProp ?m f = JNum (Fin x) \<and> getProp (JSON_stringify ?m) f = JNum (Fin x)"
  proof (intro allI impI)
    fix x
    assume "coercible_value rt (getProp body f) = Some x"
    then have "toNum rt (getProp body f) = JNum (Fin x)"
      by (simp add: toNum_coercible [of rt "getProp body f"])
    with g have v: "getProp ?m f = JNum (Fin x)" by simp
    then have "getProp (JSON_stringify ?m) f = JSON_stringify (JNum (Fin x))"
      by (rule getProp_stringify) simp
    with v show "getProp ?m f = JNum (Fin x) \<and> getProp (JSON_stringify ?m) f = JNum (Fin x)"
      by simp
  qed
  from sr acc g c1 c2 c3 show ?thesis
    by (intro exI [of _ ?m] conjI) assumption+
qed

theorem C8_optional_fields_witness:
  "''ay'' \<in> set optional_fields
   \<and> \<not> typeof_string (getProp (JObj [(''pitch'', JNum (Fin 10)), (''ax'', JNull),
          (''ay'', JStr '' ''), (''az'', JNum PosInf), (''roll'', JBool True),
          (''a_mag'', JArr [JNum (Fin 1)]), (''dpitch'', JStr ''abc''),
          (''button'', JNum (Fin 0)), (''button_click'', JObj [])]) ''event'')
   \<and> toNum example_runtime (getProp (JObj [(''pitch'', JNum (Fin 10)), (''ax'', JNull),
          (''ay'', JStr '' ''), (''az'', JNum PosInf), (''roll'', JBool True),
          (''a_mag'', JArr [JNum (Fin 1)]), (''dpitch'', JStr ''abc''),
          (''button'', JNum (Fin 0)), (''button_click'', JObj [])]) ''pitch'') \<noteq> JUndefined
   \<and> js_Number example_runtime '' '' = Fin 0
   \<and> coercible_value example_runtime (getProp (JObj [(''pitch'', JNum (Fin 10)), (''ax'', JNull),
          (''ay'', JStr '' ''), (''az'', JNum PosInf), (''roll'', JBool True),
          (''a_mag'', JArr [JNum (Fin 1)]), (''dpitch'', JStr ''abc''),
          (''button'', JNum (Fin 0)), (''button_click'', JObj [])]) ''ay'') = None
   \<and> (\<exists>m. sample_record example_runtime 100 (JObj [(''pitch'', JNum (Fin 10)), (''ax'', JNull),
          (''ay'', JStr '' ''), (''az'', JNum PosInf), (''roll'', JBool True),
          (''a_mag'', JArr [JNum (Fin 1)]), (''dpitch'', JStr ''abc''),
          (''button'', JNum (Fin 0)), (''button_click'', JObj [])]) 1 = Some m
         \<and> getProp m ''ay'' = JUndefined
         \<and> JSON_stringify m = JObj [(''kind'', JStr ''sample''), (''pitch'', JNum (Fin 10)),
              (''button'', JNum (Fin 0)), (''ts'', JNum (Fin 100)), (''source'', JNum (Fin 1))])"
proof -
  let ?b = "JObj [(''pitch'', JNum (Fin 10)), (''ax'', JNull),
          (''ay'', JStr '' ''), (''az'', JNum PosInf), (''roll'', JBool True),
          (''a_mag'', JArr [JNum (Fin 1)]), (''dpitch'', JStr ''abc''),
          (''button'', JNum (Fin 0)), (''button_click'', JObj [])]"
  have a: "''ay'' \<in> set optional_fields" by (simp add: optional_fields_def)
  have b: "\<not> typeof_string (getProp ?b ''event'')" by simp
  have c: "toNum example_runtime (getProp ?b ''pitch'') \<noteq> JUndefined" by simp
  have z: "js_Number example_runtime '' '' = Fin 0"
    by (simp add: example_runtime_def example_Number_def)
  have d: "coercible_value example_runtime (getProp ?b ''ay'') = None"
    by (simp add: example_runtime_def example_trim_def)
  obtain m where m: "sample_record example_runtime 100 ?b 1 = Some m"
    and u: "coercible_value example_runtime (getProp ?b ''ay'') = None
              \<longrightarrow> getProp m ''ay'' = JUndefined \<and> getProp m ''ay'' \<noteq> JNum (Fin 0)
                \<and> getProp (JSON_stringify m) ''ay'' = JUndefined
                \<and> ''ay'' \<notin> fst ` set (spread (JSON_stringify m))"
    using C8_optional_fields [OF a b c, of 100 1 example_config "TELEMETRY1_PATH example_config"
        History1 setLatest1 "init_state 5 6"]
    by (elim exE conjE) (rule that)
  from u d have g: "getProp m ''ay'' = JUndefined" by blast
  from m have "JSON_stringify m = JObj [(''kind'', JStr ''sample''), (''pitch'', JNum (Fin 10)),
              (''button'', JNum (Fin 0)), (''ts'', JNum (Fin 100)), (''source'', JNum (Fin 1))]"
    by (auto simp: eval_defs)
  with m g have "\<exists>m. sample_record example_runtime 100 ?b 1 = Some m
         \<and> getProp m ''ay'' = JUndefined
         \<and> JSON_stringify m = JObj [(''kind'', JStr ''sample''), (''pitch'', JNum (Fin 10)),
              (''button'', JNum (Fin 0)), (''ts'', JNum (Fin 100)), (''source'', JNum (Fin 1))]"
    by blast
  with a b c z d show ?thesis by (intro conjI)
qed

section \<open>The analysis window (C9)\<close>

text \<open>
  C9, amended.  The size requested is the number that the body's \<^verbatim>\<open>window\<close> stands
  for, or \<^verbatim>\<open>ANALYSIS_DEFAULT_WINDOW\<close> when it is missing or stands for none.  The
  window size is its floor, raised to 20 when it is below 20 and, when
  \<^verbatim>\<open>ANALYSIS_MAX_WINDOW\<close> is at least 20, lowered to \<^verbatim>\<open>ANALYSIS_MAX_WINDOW\<close> when
  it is above; with \<^verbatim>\<open>ANALYSIS_MAX_WINDOW\<close> below 20 the size is 20.  The state is
  returned as it was; selector 1 (or \<^verbatim>\<open>"1"\<close>) gives the samples among the last
  \<open>window\<close> records of the first history, selector 2 (or \<^verbatim>\<open>"2"\<close>) those of the
  second, in history order; any other selector gives the two lists together, sorted by
  ascending \<^verbatim>\<open>ts\<close>.
\<close>

theorem C9_analysis_window:
  "20 \<le> analysis_window rt cfg body
    \<and> (\<lfloor>requested_size rt cfg body\<rfloor> < 20 \<longrightarrow> analysis_window rt cfg body = 20)
    \<and> (20 \<le> \<lfloor>requested_size rt cfg body\<rfloor>
         \<and> \<lfloor>requested_size rt cfg body\<rfloor> \<le> ANALYSIS_MAX_WINDOW cfg \<longrightarrow>
         analysis_window rt cfg body = \<lfloor>requested_size rt cfg body\<rfloor>)
    \<and> (20 \<le> ANALYSIS_MAX_WINDOW cfg
         \<and> ANALYSIS_MAX_WINDOW cfg < \<lfloor>requested_size rt cfg body\<rfloor> \<longrightarrow>
         analysis_window rt cfg body = ANALYSIS_MAX_WINDOW cfg)
    \<and> (ANALYSIS_MAX_WINDOW cfg < 20 \<longrightarrow> analysis_window rt cfg body = 20)
    \<and> (20 \<le> ANALYSIS_MAX_WINDOW cfg \<longrightarrow>
         analysis_window rt cfg body \<le> ANALYSIS_MAX_WINDOW cfg)
    \<and> snd (combinedSamples rt cfg body st) = st
    \<and> (selector body = JNum (Fin 1) \<or> selector body = JStr ''1'' \<longrightarrow>
         fst (combinedSamples rt cfg body st)
           = recent_samples (nat (analysis_window rt cfg body)) (history1 st))
    \<and> (\<not> (selector body = JNum (Fin 1) \<or> selector body = JStr ''1'')
         \<and> (selector body = JNum (Fin 2) \<or> selector body = JStr ''2'') \<longrightarrow>
         fst (combinedSamples rt cfg body st)
           = recent_samples (nat (analysis_window rt cfg body)) (history2 st))
    \<and> (\<not> (selector body = JNum (Fin 1) \<or> selector body = JStr ''1'')
         \<and> \<not> (selector body = JNum (Fin 2) \<or> selector body = JStr ''2'') \<longrightarrow>
         fst (combinedSamples rt cfg body st)
           = sort_key ts_or_0 (recent_samples (nat (analysis_window rt cfg body)) (history1 st)
                               @ recent_samples (nat (analysis_window rt cfg body)) (history2 st))
         \<and> sorted (map ts_or_0 (fst (combinedSamples rt cfg body st)))
         \<and> mset (fst (combinedSamples rt cfg body st))
             = mset (recent_samples (nat (analysis_window rt cfg body)) (history1 st))
               + mset (recent_samples (nat (analysis_window rt cfg body)) (history2 st)))"
proof -
  let ?w = "analysis_window rt cfg body"
  let ?r = "\<lfloor>requested_size rt cfg body\<rfloor>"
  have cl: "?w = max 20 (min (ANALYSIS_MAX_WINDOW cfg) ?r)"
    by (rule analysis_window_clamp)
  have b0: "20 \<le> ?w"
    and b1: "?r < 20 \<longrightarrow> ?w = 20"
    and b2: "20 \<le> ?r \<and> ?r \<le> ANALYSIS_MAX_WINDOW cfg \<longrightarrow> ?w = ?r"
    and b3: "20 \<le> ANALYSIS_MAX_WINDOW cfg \<and> ANALYSIS_MAX_WINDOW cfg < ?r \<longrightarrow>
              ?w = ANALYSIS_MAX_WINDOW cfg"
    and b4: "ANALYSIS_MAX_WINDOW cfg < 20 \<longrightarrow> ?w = 20"
    and b5: "20 \<le> ANALYSIS_MAX_WINDOW cfg \<longrightarrow> ?w \<le> ANALYSIS_MAX_WINDOW cfg"
    using clamp_cases [OF cl] by blast+
  from b0 have w0: "0 \<le> ?w" by simp
  have r: "filter is_sample (pickWindow ?w arr) = recent_samples (nat ?w) arr" for arr
    by (rule pickWindow_recent [OF w0])
  have s: "snd (combinedSamples rt cfg body st) = st"
    by (simp add: combinedSamples_def Let_def)
  have c1: "selector body = JNum (Fin 1) \<or> selector body = JStr ''1'' \<longrightarrow>
         fst (combinedSamples rt cfg body st) = recent_samples (nat ?w) (history1 st)"
    by (simp add: combinedSamples_def Let_def r selector_def)
  have c2: "\<not> (selector body = JNum (Fin 1) \<or> selector body = JStr ''1'')
         \<and> (selector body = JNum (Fin 2) \<or> selector body = JStr ''2'') \<longrightarrow>
         fst (combinedSamples rt cfg body st) = recent_samples (nat ?w) (history2 st)"
    by (simp add: combinedSamples_def Let_def r selector_def)
  have c3: "\<not> (selector body = JNum (Fin 1) \<or> selector body = JStr ''1'')
         \<and> \<not> (selector body = JNum (Fin 2) \<or> selector body = JStr ''2'') \<longrightarrow>
         fst (combinedSamples rt cfg body st)
           = sort_key ts_or_0 (recent_samples (nat ?w) (history1 st) @ recent_samples (nat ?w) (history2 st))
         \<and> sorted (map ts_or_0 (fst (combinedSamples rt cfg body st)))
         \<and> mset (fst (combinedSamples rt cfg body st))
             = mset (recent_samples (nat ?w) (history1 st)) + mset (recent_samples (nat ?w) (history2 st))"
    by (simp add: combinedSamples_def Let_def r selector_def)
  from b0 b1 b2 b3 b4 b5 s c1 c2 c3 show ?thesis by (intro conjI)
qed

theorem C9_analysis_window_witness:
  "analysis_window example_runtime example_config (JObj [(''window'', JNum (Fin 50))]) = 50
   \<and> analysis_window example_runtime example_config (JObj [(''window'', JNum (Fin (51 / 2)))]) = 25
   \<and> analysis_window example_runtime example_config (JObj [(''window'', JNum (Fin 5))]) = 20
   \<and> analysis_window example_runtime example_config (JObj [(''window'', JNum (Fin 5000))]) = 1000
   \<and> analysis_window example_runtime example_config (JObj [(''window'', JNull)]) = 300
   \<and> fst (combinedSamples example_runtime example_config
        (JObj [(''window'', JNum (Fin 5)), (''source'', JNum (Fin 1))]) example_long_history)
      = [JObj [(''kind'', JStr ''sample''), (''ts'', JNum (Fin 3))]]
   \<and> fst (combinedSamples example_runtime example_config (JObj []) example_histories)
      = [JObj [(''kind'', JStr ''sample''), (''ts'', JNum (Fin 10))],
         JObj [(''kind'', JStr ''sample''), (''ts'', JNum (Fin 20))],
         JObj [(''kind'', JStr ''sample''), (''ts'', JNum (Fin 30))]]"
proof -
  have m: "ANALYSIS_MAX_WINDOW example_config = 1000" by (simp add: example_config_def)
  have q1: "\<lfloor>requested_size example_runtime example_config (JObj [(''window'', JNum (Fin 50))])\<rfloor> = 50"
    by (simp add: requested_size_def)
  have q2: "\<lfloor>requested_size example_runtime example_config (JObj [(''window'', JNum (Fin (51 / 2)))])\<rfloor> = 25"
    by (simp add: requested_size_def) linarith
  have q3: "\<lfloor>requested_size example_runtime example_config (JObj [(''window'', JNum (Fin 5))])\<rfloor> = 5"
    by (simp add: requested_size_def)
  have q4: "\<lfloor>requested_size example_runtime example_config (JObj [(''window'', JNum (Fin 5000))])\<rfloor> = 5000"
    by (simp add: requested_size_def)
  have q5: "\<lfloor>requested_size example_runtime example_config (JObj [(''window'', JNull)])\<rfloor> = 300"
    by (simp add: requested_size_def example_config_def)
  have q6: "\<lfloor>requested_size example_runtime example_config
      (JObj [(''window'', JNum (Fin 5)), (''source'', JNum (Fin 1))])\<rfloor> = 5"
    by (simp add: requested_size_def)
  have q7: "\<lfloor>requested_size example_runtime example_config (JObj [])\<rfloor> = 300"
    by (simp add: requested_size_def example_config_def)
  note t = C9_analysis_window [where rt = example_runtime and cfg = example_config]
  have w1: "analysis_window example_runtime example_config (JObj [(''window'', JNum (Fin 50))]) = 50"
    using t [where body = "JObj [(''window'', JNum (Fin 50))]"] q1 m by simp
  have w2: "analysis_window example_runtime example_config (JObj [(''window'', JNum (Fin (51 / 2)))]) = 25"
    using t [where body = "JObj [(''window'', JNum (Fin (51 / 2)))]"] q2 m by simp
  have w3: "analysis_window example_runtime example_config (JObj [(''window'', JNum (Fin 5))]) = 20"
    using t [where body = "JObj [(''window'', JNum (Fin 5))]"] q3 m by simp
  have w4: "analysis_window example_runtime example_config (JObj [(''window'', JNum (Fin 5000))]) = 1000"
    using t [where body = "JObj [(''window'', JNum (Fin 5000))]"] q4 m by simp
  have w5: "analysis_window example_runtime example_config (JObj [(''window'', JNull)]) = 300"
    using t [where body = "JObj [(''window'', JNull)]"] q5 m by simp
  have w6: "analysis_window example_runtime example_config
      (JObj [(''window'', JNum (Fin 5)), (''source'', JNum (Fin 1))]) = 20"
    using t [where body = "JObj [(''window'', JNum (Fin 5)), (''source'', JNum (Fin 1))]"] q6 m
    by simp
  have w7: "analysis_window example_runtime example_config (JObj []) = 300"
    using t [where body = "JObj []"] q7 m by simp
  have s1: "selector (JObj [(''window'', JNum (Fin 5)), (''source'', JNum (Fin 1))]) = JNum (Fin 1)"
    by (simp add: selector_def)
  have s2: "\<not> (selector (JObj []) = JNum (Fin 1) \<or> selector (JObj []) = JStr ''1'')"
    "\<not> (selector (JObj []) = JNum (Fin 2) \<or> selector (JObj []) = JStr ''2'')"
    by (simp_all add: selector_def)
  have "fst (combinedSamples example_runtime example_config
        (JObj [(''window'', JNum (Fin 5)), (''source'', JNum (Fin 1))]) example_long_history)
      = recent_samples 20 (history1 example_long_history)"
    using t [where body = "JObj [(''window'', JNum (Fin 5)), (''source'', JNum (Fin 1))]"
        and st = example_long_history] s1 w6 by simp
  then have c1: "fst (combinedSamples example_runtime example_config
        (JObj [(''window'', JNum (Fin 5)), (''source'', JNum (Fin 1))]) example_long_history)
      = [JObj [(''kind'', JStr ''sample''), (''ts'', JNum (Fin 3))]]"
    by (simp add: recent_samples_def example_long_history_def init_state_def is_sample_def)
  have "fst (combinedSamples example_runtime example_config (JObj []) example_histories)
      = sort_key ts_or_0 (recent_samples 300 (history1 example_histories)
                               @ recent_samples 300 (history2 example_histories))"
    using t [where body = "JObj []" and st = example_histories] s2 w7 by simp
  then have c2: "fst (combinedSamples example_runtime example_config (JObj []) example_histories)
      = [JObj [(''kind'', JStr ''sample''), (''ts'', JNum (Fin 10))],
         JObj [(''kind'', JStr ''sample''), (''ts'', JNum (Fin 20))],
         JObj [(''kind'', JStr ''sample''), (''ts'', JNum (Fin 30))]]"
    by (simp add: recent_samples_def example_histories_def init_state_def is_sample_def ts_or_0_def)
  from w1 w2 w3 w4 w5 c1 c2 show ?thesis by (intro conjI)
qed

text \<open>
  The claim as it is written fails when \<^verbatim>\<open>ANALYSIS_MAX_WINDOW\<close> is configured below
  20: with \<^verbatim>\<open>ANALYSIS_MAX_WINDOW=10\<close> and a request for 15, the window size is 20,
  above \<^verbatim>\<open>ANALYSIS_MAX_WINDOW\<close>.
\<close>

theorem C9_window_above_small_max:
  "ANALYSIS_MAX_WINDOW (example_config\<lparr>ANALYSIS_MAX_WINDOW := 10\<rparr>) = 10
   \<and> analysis_window example_runtime (example_config\<lparr>ANALYSIS_MAX_WINDOW := 10\<rparr>)
        (JObj [(''window'', JNum (Fin 15))]) = 20
   \<and> \<not> analysis_window example_runtime (example_config\<lparr>ANALYSIS_MAX_WINDOW := 10\<rparr>)
          (JObj [(''window'', JNum (Fin 15))])
        \<le> ANALYSIS_MAX_WINDOW (example_config\<lparr>ANALYSIS_MAX_WINDOW := 10\<rparr>)"
  by (simp add: analysis_window_def example_config_def)

section \<open>Fields set by the server (C10)\<close>



end
